theory Spec2Isabelle
  imports Complex_Main "HOL-Library.Sublist"
begin

section \<open>The model\<close>

text \<open>
  The development embeds the metadata enrichment engine of the extension: the files
  \<^verbatim>\<open>src/popup/enrichment.js\<close> and \<^verbatim>\<open>src/popup/metadata-extractor.js\<close>. Every definition
  below is a translation of the JavaScript function of the same name; where a helper has no
  counterpart of its own in the source, its comment says which source expression it stands for.

  Conventions.
  \<^item> A JavaScript string is a HOL \<^typ>\<open>string\<close>; the character with code \<open>n\<close> stands for the
    code unit U+00\<open>n\<close>, so the model covers the strings over U+0000 .. U+00FF.
  \<^item> A JavaScript number is a rational; rounding, \<^verbatim>\<open>NaN\<close> and the infinities are not part
    of the model. Where the source can produce \<^verbatim>\<open>NaN\<close> (a failed conversion), the model
    uses \<^term>\<open>None\<close>.
  \<^item> A thrown exception is the \<^term>\<open>Inl\<close> branch of a sum; \<^verbatim>\<open>null\<close> returned by a
    function whose only other result is an object or a string is \<^term>\<open>None\<close>.
  \<^item> \<^verbatim>\<open>await\<close>, \<^verbatim>\<open>console.log\<close> and the pauses (\<^verbatim>\<open>sleep\<close>, \<^verbatim>\<open>setTimeout\<close>)
    have no counterpart: the calls are sequential in the source and are sequential here.
\<close>

subsection \<open>Characters and strings\<close>

text \<open>
  The white space of \<^verbatim>\<open>\s\<close> and of \<^verbatim>\<open>String.prototype.trim\<close> (the same set of code
  points) below U+0100: tab, line feed, vertical tab, form feed, carriage return, space and
  the no-break space.
\<close>

definition isWhiteSpace :: "char \<Rightarrow> bool" where
  "isWhiteSpace c = (of_char c \<in> {9, 10, 11, 12, 13, 32, 160 :: int})"

definition isLineTerminator :: "char \<Rightarrow> bool" where
  "isLineTerminator c = (of_char c \<in> {10, 13 :: int})"

definition isDigit :: "char \<Rightarrow> bool" where
  "isDigit c = (48 \<le> (of_char c :: int) \<and> (of_char c :: int) \<le> 57)"

definition isLowerAZ :: "char \<Rightarrow> bool" where
  "isLowerAZ c = (97 \<le> (of_char c :: int) \<and> (of_char c :: int) \<le> 122)"

definition isUpperAZ :: "char \<Rightarrow> bool" where
  "isUpperAZ c = (65 \<le> (of_char c :: int) \<and> (of_char c :: int) \<le> 90)"

text \<open>The word characters of \<^verbatim>\<open>\w\<close>, which decide \<^verbatim>\<open>\b\<close>.\<close>

definition isWordChar :: "char \<Rightarrow> bool" where
  "isWordChar c = (isLowerAZ c \<or> isUpperAZ c \<or> isDigit c \<or> c = CHR ''_'')"

text \<open>
  \<^verbatim>\<open>String.prototype.toLowerCase\<close> below U+0100: the letters A-Z and the capital letters
  U+00C0 .. U+00DE (U+00D7, the multiplication sign, apart) move up by 32.
\<close>

definition toLowerCaseChar :: "char \<Rightarrow> char" where
  "toLowerCaseChar c =
     (let n = of_char c :: int
      in if (65 \<le> n \<and> n \<le> 90) \<or> (192 \<le> n \<and> n \<le> 222 \<and> n \<noteq> 215)
         then char_of (n + 32) else c)"

definition toLowerCase :: "string \<Rightarrow> string" where
  "toLowerCase s = map toLowerCaseChar s"

definition trim :: "string \<Rightarrow> string" where
  "trim s = rev (dropWhile isWhiteSpace (rev (dropWhile isWhiteSpace s)))"

text \<open>\<^verbatim>\<open>s.includes(t)\<close>: \<open>t\<close> occurs in \<open>s\<close> as a contiguous run.\<close>

fun str_includes :: "string \<Rightarrow> string \<Rightarrow> bool" where
  "str_includes [] t = (t = [])"
| "str_includes (c # cs) t = (prefix t (c # cs) \<or> str_includes cs t)"

text \<open>
  \<^verbatim>\<open>s.split(/\s+/)\<close>, with the piece read so far (reversed) as first argument: every
  maximal run of white space is one separator, a separator at either end leaves an empty
  piece there, and the empty string splits into the one empty piece.
\<close>

function splitWs :: "string \<Rightarrow> string \<Rightarrow> string list" where
  "splitWs cur [] = [rev cur]"
| "splitWs cur (c # cs) =
     (if isWhiteSpace c then rev cur # splitWs [] (dropWhile isWhiteSpace cs)
      else splitWs (c # cur) cs)"
  by pat_completeness auto
termination
  by (relation "measure (\<lambda>(cur, s). length s)")
     (auto simp: less_Suc_eq_le length_dropWhile_le)

subsection \<open>The similarity scorer\<close>

text \<open>The replacement \<^verbatim>\<open>.replace(/[^a-z0-9\s]/g, '')\<close>.\<close>

definition stripNonAlnum :: "string \<Rightarrow> string" where
  "stripNonAlnum s = filter (\<lambda>c. isLowerAZ c \<or> isDigit c \<or> isWhiteSpace c) s"

text \<open>
  \<^verbatim>\<open>calculateTitleSimilarity\<close> (enrichment.js, lines 690-710). A \<^verbatim>\<open>Set\<close> built from
  an array is the list without its repetitions; only its size and its membership test are
  used, so the order of the elements is not observed.
\<close>

definition calculateTitleSimilarity :: "string \<Rightarrow> string \<Rightarrow> rat" where
  "calculateTitleSimilarity title1 title2 =
     (let clean1 = trim (stripNonAlnum (toLowerCase title1));
          clean2 = trim (stripNonAlnum (toLowerCase title2))
      in if clean1 = clean2 then 1
         else
           (let words1 = remdups (splitWs [] clean1);
                words2 = remdups (splitWs [] clean2);
                intersection = remdups (filter (\<lambda>w. w \<in> set words2) words1);
                union = remdups (words1 @ words2);
                jaccard = rat_of_nat (length intersection) / rat_of_nat (length union);
                substring = (if str_includes clean1 clean2 \<or> str_includes clean2 clean1
                             then 2 / 10 else 0)
            in min 1 (jaccard + substring)))"

subsection \<open>Regular expressions\<close>

text \<open>
  The source matches strings with regular expression literals. They are modelled by a
  datatype of patterns and a backtracking matcher with the priorities of ECMAScript: the
  left alternative first, a greedy repetition longest first, a lazy one shortest first, and
  the leftmost starting position first. \<open>Cls\<close> is a character class (also a class escape
  such as \<^verbatim>\<open>\d\<close>), \<open>Grp n\<close> the \<open>n\<close>-th capturing group, \<open>Bol\<close> and \<open>Eol\<close> the
  anchors \<^verbatim>\<open>^\<close> and \<^verbatim>\<open>$\<close> (no pattern of the source has the \<^verbatim>\<open>m\<close> flag), \<open>WordB\<close>
  the assertion \<^verbatim>\<open>\b\<close>.
\<close>

datatype rx =
    Eps
  | Chr char
  | Cls "char \<Rightarrow> bool"
  | Seq rx rx
  | Alt rx rx
  | Star rx
  | StarLazy rx
  | Grp nat rx
  | Bol
  | Eol
  | WordB

text \<open>
  A position is the pair of the input read so far, reversed, and the input still to read.
  The captures map a group number to the text the group matched last.
\<close>

type_synonym rx_pos = "string \<times> string"
type_synonym rx_caps = "nat \<Rightarrow> string option"
type_synonym rx_cont = "rx_pos \<Rightarrow> rx_caps \<Rightarrow> (rx_pos \<times> rx_caps) option"

definition asciiLower :: "char \<Rightarrow> char" where
  "asciiLower c = (if isUpperAZ c then char_of (of_char c + (32 :: int)) else c)"

text \<open>
  A pattern character against an input character; \<open>ci\<close> is the \<^verbatim>\<open>i\<close> flag. Every
  literal character of the source's patterns is an ASCII character, and below U+0100 only
  the other case of the same ASCII letter is equal to it when case is ignored.
\<close>

definition chr_matches :: "bool \<Rightarrow> char \<Rightarrow> char \<Rightarrow> bool" where
  "chr_matches ci x y = (if ci then asciiLower x = asciiLower y else x = y)"

definition atWordBoundary :: "rx_pos \<Rightarrow> bool" where
  "atWordBoundary p =
     ((case fst p of [] \<Rightarrow> False | b # _ \<Rightarrow> isWordChar b) \<noteq>
      (case snd p of [] \<Rightarrow> False | a # _ \<Rightarrow> isWordChar a))"

text \<open>
  The matcher, in continuation-passing style: \<open>rx_match ci r p c k\<close> matches \<open>r\<close> at the
  position \<open>p\<close> and hands every way of doing so, in priority order, to the continuation
  \<open>k\<close> until one of them lets \<open>k\<close> succeed. An iteration of a repetition that reads
  nothing is refused, as in ECMAScript. (The source has no capturing group under a
  repetition, so the reset of captures at each iteration is not modelled.)
\<close>

function rx_match :: "bool \<Rightarrow> rx \<Rightarrow> rx_pos \<Rightarrow> rx_caps \<Rightarrow> rx_cont \<Rightarrow> (rx_pos \<times> rx_caps) option" where
  "rx_match ci Eps p c k = k p c"
| "rx_match ci (Chr x) p c k =
     (case snd p of [] \<Rightarrow> None
      | y # ys \<Rightarrow> if chr_matches ci x y then k (y # fst p, ys) c else None)"
| "rx_match ci (Cls f) p c k =
     (case snd p of [] \<Rightarrow> None
      | y # ys \<Rightarrow> if f y then k (y # fst p, ys) c else None)"
| "rx_match ci (Seq r1 r2) p c k = rx_match ci r1 p c (\<lambda>p' c'. rx_match ci r2 p' c' k)"
| "rx_match ci (Alt r1 r2) p c k =
     (case rx_match ci r1 p c k of Some m \<Rightarrow> Some m | None \<Rightarrow> rx_match ci r2 p c k)"
| "rx_match ci (Star r) p c k =
     (case rx_match ci r p c
             (\<lambda>p' c'. if length (snd p') < length (snd p) then rx_match ci (Star r) p' c' k else None)
      of Some m \<Rightarrow> Some m | None \<Rightarrow> k p c)"
| "rx_match ci (StarLazy r) p c k =
     (case k p c of Some m \<Rightarrow> Some m
      | None \<Rightarrow> rx_match ci r p c
             (\<lambda>p' c'. if length (snd p') < length (snd p) then rx_match ci (StarLazy r) p' c' k else None))"
| "rx_match ci (Grp n r) p c k =
     rx_match ci r p c (\<lambda>p' c'. k p' (c'(n \<mapsto> take (length (snd p) - length (snd p')) (snd p))))"
| "rx_match ci Bol p c k = (if fst p = [] then k p c else None)"
| "rx_match ci Eol p c k = (if snd p = [] then k p c else None)"
| "rx_match ci WordB p c k = (if atWordBoundary p then k p c else None)"
  by pat_completeness auto
termination
  by (relation "inv_image (less_than <*lex*> less_than) (\<lambda>(ci, r, p, c, k). (size r, length (snd p)))")
     auto

text \<open>The derived forms: a literal string, \<^verbatim>\<open>r+\<close>, \<^verbatim>\<open>r+?\<close>, \<^verbatim>\<open>r?\<close>, \<^verbatim>\<open>r{n}\<close>.\<close>

definition Lit :: "string \<Rightarrow> rx" where
  "Lit s = foldr (\<lambda>x r. Seq (Chr x) r) s Eps"

definition Seqs :: "rx list \<Rightarrow> rx" where
  "Seqs rs = foldr Seq rs Eps"

definition Alts :: "rx \<Rightarrow> rx list \<Rightarrow> rx" where
  "Alts r rs = foldl Alt r rs"

definition Plus :: "rx \<Rightarrow> rx" where
  "Plus r = Seq r (Star r)"

definition PlusLazy :: "rx \<Rightarrow> rx" where
  "PlusLazy r = Seq r (StarLazy r)"

definition Opt :: "rx \<Rightarrow> rx" where
  "Opt r = Alt r Eps"

definition Rep :: "nat \<Rightarrow> rx \<Rightarrow> rx" where
  "Rep n r = Seqs (replicate n r)"

definition Digit :: rx where
  "Digit = Cls isDigit"

definition Space :: rx where
  "Space = Cls isWhiteSpace"

definition NonSpace :: rx where
  "NonSpace = Cls (\<lambda>c. \<not> isWhiteSpace c)"

definition Dot :: rx where
  "Dot = Cls (\<lambda>c. \<not> isLineTerminator c)"

definition Upper :: rx where
  "Upper = Cls isUpperAZ"

definition Lower :: rx where
  "Lower = Cls isLowerAZ"

definition Digits4 :: rx where
  "Digits4 = Rep 4 Digit"

text \<open>
  The result of a successful match: the matched text (\<^verbatim>\<open>match[0]\<close>), the captures
  (\<^verbatim>\<open>match[n]\<close>), and the input before and after the match.
\<close>

record rx_result =
  matched :: string
  groups :: rx_caps
  before :: string
  after :: string

definition rx_at :: "bool \<Rightarrow> rx \<Rightarrow> string \<Rightarrow> string \<Rightarrow> rx_result option" where
  "rx_at ci r bef rest =
     (case rx_match ci r (bef, rest) Map.empty (\<lambda>p c. Some (p, c)) of
        None \<Rightarrow> None
      | Some (p', c') \<Rightarrow>
          Some \<lparr>matched = take (length rest - length (snd p')) rest, groups = c',
                before = rev bef, after = snd p'\<rparr>)"

text \<open>\<^verbatim>\<open>s.match(r)\<close> for a pattern without the \<^verbatim>\<open>g\<close> flag: the leftmost match.\<close>

fun rx_exec_from :: "bool \<Rightarrow> rx \<Rightarrow> string \<Rightarrow> string \<Rightarrow> rx_result option" where
  "rx_exec_from ci r bef [] = rx_at ci r bef []"
| "rx_exec_from ci r bef (y # ys) =
     (case rx_at ci r bef (y # ys) of
        Some m \<Rightarrow> Some m
      | None \<Rightarrow> rx_exec_from ci r (y # bef) ys)"

definition rx_exec :: "bool \<Rightarrow> rx \<Rightarrow> string \<Rightarrow> rx_result option" where
  "rx_exec ci r s = rx_exec_from ci r [] s"

text \<open>A capture that took part in the match (every group read below did).\<close>

definition group :: "rx_result \<Rightarrow> nat \<Rightarrow> string" where
  "group m n = (case groups m n of None \<Rightarrow> [] | Some g \<Rightarrow> g)"

text \<open>
  \<^verbatim>\<open>s.match(r)\<close> for a pattern with the \<^verbatim>\<open>g\<close> flag: the array of the texts of the
  successive matches, without captures, or \<^verbatim>\<open>null\<close> when there is none. \<open>skip\<close> counts
  the characters still covered by the previous match; after an empty match the search
  moves on by one character.
\<close>

fun rx_match_all_from :: "bool \<Rightarrow> rx \<Rightarrow> nat \<Rightarrow> string \<Rightarrow> string \<Rightarrow> string list" where
  "rx_match_all_from ci r skip bef [] =
     (if 0 < skip then []
      else (case rx_at ci r bef [] of None \<Rightarrow> [] | Some m \<Rightarrow> [matched m]))"
| "rx_match_all_from ci r skip bef (y # ys) =
     (if 0 < skip then rx_match_all_from ci r (skip - 1) (y # bef) ys
      else (case rx_at ci r bef (y # ys) of
              None \<Rightarrow> rx_match_all_from ci r 0 (y # bef) ys
            | Some m \<Rightarrow> matched m # rx_match_all_from ci r (length (matched m) - 1) (y # bef) ys))"

definition rx_match_all :: "bool \<Rightarrow> rx \<Rightarrow> string \<Rightarrow> string list option" where
  "rx_match_all ci r s =
     (case rx_match_all_from ci r 0 [] s of [] \<Rightarrow> None | m # ms \<Rightarrow> Some (m # ms))"

text \<open>
  \<^verbatim>\<open>s.replace(r, rep)\<close>: the first match without the \<^verbatim>\<open>g\<close> flag, every match with
  it. No replacement text of the source has a \<^verbatim>\<open>$\<close> pattern.
\<close>

definition rx_replace :: "bool \<Rightarrow> rx \<Rightarrow> string \<Rightarrow> string \<Rightarrow> string" where
  "rx_replace ci r rep s =
     (case rx_exec ci r s of None \<Rightarrow> s | Some m \<Rightarrow> before m @ rep @ after m)"

fun rx_replace_all_from :: "bool \<Rightarrow> rx \<Rightarrow> string \<Rightarrow> nat \<Rightarrow> string \<Rightarrow> string \<Rightarrow> string" where
  "rx_replace_all_from ci r rep skip bef [] =
     (if 0 < skip then []
      else (case rx_at ci r bef [] of None \<Rightarrow> [] | Some m \<Rightarrow> rep))"
| "rx_replace_all_from ci r rep skip bef (y # ys) =
     (if 0 < skip then rx_replace_all_from ci r rep (skip - 1) (y # bef) ys
      else (case rx_at ci r bef (y # ys) of
              None \<Rightarrow> y # rx_replace_all_from ci r rep 0 (y # bef) ys
            | Some m \<Rightarrow>
                if matched m = [] then rep @ y # rx_replace_all_from ci r rep 0 (y # bef) ys
                else rep @ rx_replace_all_from ci r rep (length (matched m) - 1) (y # bef) ys))"

definition rx_replace_all :: "bool \<Rightarrow> rx \<Rightarrow> string \<Rightarrow> string \<Rightarrow> string" where
  "rx_replace_all ci r rep s = rx_replace_all_from ci r rep 0 [] s"

subsection \<open>JavaScript values\<close>

text \<open>
  The values that flow through the engine: the payloads of the providers (parsed JSON) and
  the fields of the records. An object of a payload is an association list, read with
  \<^term>\<open>map_of\<close>.
\<close>

datatype jsval =
    JUndefined
  | JNull
  | JBool bool
  | JNum rat
  | JStr string
  | JArr "jsval list"
  | JObj "(string \<times> jsval) list"

text \<open>
  The records that the engine reads, builds and merges (the source record, the candidate
  of a provider, the enriched record) are maps from property names to values. The object
  spread \<^verbatim>\<open>{ ...a, ...b, k: v }\<close> is \<open>(a ++ b)(k \<mapsto> v)\<close>: every own property of
  \<open>b\<close> is copied over \<open>a\<close>, whatever its value.
\<close>

type_synonym jsobj = "string \<Rightarrow> jsval option"

text \<open>
  A thrown value. Everything the source throws is an \<^verbatim>\<open>Error\<close> object, of which only
  \<^verbatim>\<open>message\<close> is ever read. The text of the message of an error raised by the runtime
  is not modelled: it is \<open>TypeError\<close> for all of them.
\<close>

datatype js_error = JsError string

fun message :: "js_error \<Rightarrow> string" where
  "message (JsError m) = m"

definition TypeError :: js_error where
  "TypeError = JsError ''TypeError''"

fun truthy :: "jsval \<Rightarrow> bool" where
  "truthy JUndefined = False"
| "truthy JNull = False"
| "truthy (JBool b) = b"
| "truthy (JNum n) = (n \<noteq> 0)"
| "truthy (JStr s) = (s \<noteq> [])"
| "truthy (JArr xs) = True"
| "truthy (JObj kvs) = True"

text \<open>The operator \<^verbatim>\<open>a || b\<close>.\<close>

definition js_or :: "jsval \<Rightarrow> jsval \<Rightarrow> jsval" where
  "js_or a b = (if truthy a then a else b)"

fun nullish :: "jsval \<Rightarrow> bool" where
  "nullish JUndefined = True"
| "nullish JNull = True"
| "nullish v = False"

text \<open>
  The property read \<^verbatim>\<open>v?.k\<close>. The read \<^verbatim>\<open>v.k\<close> is the same on a value that is not
  \<^verbatim>\<open>null\<close> or \<^verbatim>\<open>undefined\<close> and throws on these two: where the source reads
  without \<^verbatim>\<open>?.\<close>, the model tests \<^term>\<open>nullish\<close> first. The properties read from
  payloads are data properties and \<^verbatim>\<open>length\<close>.
\<close>

fun get :: "jsval \<Rightarrow> string \<Rightarrow> jsval" where
  "get (JObj kvs) k = (case map_of kvs k of None \<Rightarrow> JUndefined | Some v \<Rightarrow> v)"
| "get (JArr xs) k = (if k = ''length'' then JNum (of_nat (length xs)) else JUndefined)"
| "get (JStr s) k = (if k = ''length'' then JNum (of_nat (length s)) else JUndefined)"
| "get v k = JUndefined"

text \<open>The element read \<^verbatim>\<open>v?.[0]\<close>.\<close>

fun at0 :: "jsval \<Rightarrow> jsval" where
  "at0 (JArr xs) = (case xs of [] \<Rightarrow> JUndefined | x # _ \<Rightarrow> x)"
| "at0 (JStr s) = (case s of [] \<Rightarrow> JUndefined | c # _ \<Rightarrow> JStr [c])"
| "at0 (JObj kvs) = (case map_of kvs ''0'' of None \<Rightarrow> JUndefined | Some v \<Rightarrow> v)"
| "at0 v = JUndefined"

text \<open>The property read \<^verbatim>\<open>record.k\<close> on a record.\<close>

definition field :: "jsobj \<Rightarrow> string \<Rightarrow> jsval" where
  "field obj k = (case obj k of None \<Rightarrow> JUndefined | Some v \<Rightarrow> v)"

fun join :: "string \<Rightarrow> string list \<Rightarrow> string" where
  "join sep [] = []"
| "join sep [x] = x"
| "join sep (x # y # ys) = x @ sep @ join sep (y # ys)"

text \<open>
  The conversion to a string of a template literal and of \<^verbatim>\<open>String(v)\<close>. The digits
  the runtime prints for a number are a parameter, \<open>n2s\<close>.
\<close>

fun toStringJS :: "(rat \<Rightarrow> string) \<Rightarrow> jsval \<Rightarrow> string" where
  "toStringJS n2s JUndefined = ''undefined''"
| "toStringJS n2s JNull = ''null''"
| "toStringJS n2s (JBool b) = (if b then ''true'' else ''false'')"
| "toStringJS n2s (JNum n) = n2s n"
| "toStringJS n2s (JStr s) = s"
| "toStringJS n2s (JArr xs) =
     join '','' (map (\<lambda>x. if nullish x then [] else toStringJS n2s x) xs)"
| "toStringJS n2s (JObj kvs) = ''[object Object]''"

text \<open>
  The conversion to a number of a comparison with a number; \<open>None\<close> is \<^verbatim>\<open>NaN\<close>. The
  number the runtime reads from a string is a parameter, \<open>s2n\<close>; an array and an object
  are converted to their string first.
\<close>

fun toNumber :: "(rat \<Rightarrow> string) \<Rightarrow> (string \<Rightarrow> rat option) \<Rightarrow> jsval \<Rightarrow> rat option" where
  "toNumber n2s s2n JUndefined = None"
| "toNumber n2s s2n JNull = Some 0"
| "toNumber n2s s2n (JBool b) = Some (if b then 1 else 0)"
| "toNumber n2s s2n (JNum n) = Some n"
| "toNumber n2s s2n (JStr s) = s2n s"
| "toNumber n2s s2n v = s2n (toStringJS n2s v)"

text \<open>
  \<^verbatim>\<open>v?.map(f)\<close> where \<open>f\<close> may throw (\<open>None\<close>): \<^verbatim>\<open>undefined\<close> on \<^verbatim>\<open>null\<close> and
  \<^verbatim>\<open>undefined\<close>, the mapped array on an array, and a thrown \<^verbatim>\<open>TypeError\<close> on any
  other value, which has no \<^verbatim>\<open>map\<close> method.
\<close>

definition js_map :: "(jsval \<Rightarrow> jsval option) \<Rightarrow> jsval \<Rightarrow> jsval option" where
  "js_map f v =
     (case v of
        JUndefined \<Rightarrow> Some JUndefined
      | JNull \<Rightarrow> Some JUndefined
      | JArr xs \<Rightarrow> map_option JArr (those (map f xs))
      | _ \<Rightarrow> None)"

subsection \<open>The environment\<close>

text \<open>
  What the engine reads from outside: the answers of the providers and two conversions of
  the runtime. A request is answered by a rejected \<^verbatim>\<open>fetch\<close> or by a response with
  its status and its body as parsed by \<^verbatim>\<open>response.json()\<close> (\<open>None\<close> when parsing
  throws). An environment answers the same request the same way each time.

  The clients whose code parses a document with \<^verbatim>\<open>DOMParser\<close>, reads a date with
  \<^verbatim>\<open>Date\<close>, or rebuilds an abstract (\<^verbatim>\<open>queryOpenAlex\<close>, \<^verbatim>\<open>querySemanticScholar\<close>,
  \<^verbatim>\<open>getMetadataFromArxiv\<close>, \<^verbatim>\<open>getMetadataFromPubMed\<close>, \<^verbatim>\<open>enrichArxiv\<close>, the
  fetching parts of \<^verbatim>\<open>enrichWeb\<close> and \<^verbatim>\<open>enrichYoutube\<close>) are not translated: their
  result is a field of the environment. Each of them catches every exception in the source,
  so each returns a candidate or \<^verbatim>\<open>null\<close>, respectively a record. \<open>youtubeApiKey\<close> is
  \<^verbatim>\<open>localStorage.getItem('youtube_api_key')\<close>, which can throw. \<open>hybridLoaded\<close> is the
  test \<^verbatim>\<open>typeof extractMetadataHybrid !== 'undefined'\<close>.
\<close>

datatype response = FetchFailed | Response nat "jsval option"

text \<open>\<^verbatim>\<open>response.ok\<close>.\<close>

definition resp_ok :: "nat \<Rightarrow> bool" where
  "resp_ok status = (200 \<le> status \<and> status \<le> 299)"

record env =
  numberToString :: "rat \<Rightarrow> string"
  stringToNumber :: "string \<Rightarrow> rat option"
  hybridLoaded :: bool
  fetchCrossRefWork :: "string \<Rightarrow> response"
  fetchCrossRefDOISearch :: "string \<Rightarrow> response"
  fetchCrossRefTitle :: "string \<Rightarrow> response"
  fetchCrossRefAuthorYear :: "string \<Rightarrow> int \<Rightarrow> string \<Rightarrow> response"
  queryOpenAlex :: "string \<Rightarrow> jsobj option"
  querySemanticScholar :: "string \<Rightarrow> jsobj option"
  getMetadataFromArxiv :: "string \<Rightarrow> jsobj option"
  getMetadataFromPubMed :: "string \<Rightarrow> jsobj option"
  enrichArxiv :: "jsobj \<Rightarrow> jsobj"
  fetchWebPage :: "jsobj \<Rightarrow> jsobj"
  youtubeApiKey :: "js_error + jsval"
  fetchYoutubeVideo :: "string \<Rightarrow> jsval \<Rightarrow> jsobj \<Rightarrow> jsobj"

definition str :: "env \<Rightarrow> jsval \<Rightarrow> string" where
  "str env v = toStringJS (numberToString env) v"

text \<open>The comparisons \<^verbatim>\<open>v < n\<close>, \<^verbatim>\<open>v >= n\<close> and \<^verbatim>\<open>v > n\<close> with a number: false on \<^verbatim>\<open>NaN\<close>.\<close>

definition lt :: "env \<Rightarrow> jsval \<Rightarrow> rat \<Rightarrow> bool" where
  "lt env v n =
     (case toNumber (numberToString env) (stringToNumber env) v of None \<Rightarrow> False | Some x \<Rightarrow> x < n)"

definition ge :: "env \<Rightarrow> jsval \<Rightarrow> rat \<Rightarrow> bool" where
  "ge env v n =
     (case toNumber (numberToString env) (stringToNumber env) v of None \<Rightarrow> False | Some x \<Rightarrow> n \<le> x)"

definition gt :: "env \<Rightarrow> jsval \<Rightarrow> rat \<Rightarrow> bool" where
  "gt env v n =
     (case toNumber (numberToString env) (stringToNumber env) v of None \<Rightarrow> False | Some x \<Rightarrow> n < x)"

subsection \<open>metadata-extractor.js: identifiers\<close>

text \<open>The common tail \<^verbatim>\<open>10\.\d{4,}\/[^\s]+\<close> of the DOI patterns.\<close>

definition doiBody :: rx where
  "doiBody = Seqs [Lit ''10.'', Digits4, Star Digit, Chr CHR ''/'', Plus NonSpace]"

text \<open>
  \<^verbatim>\<open>DOI_PATTERNS\<close> (lines 7-11), all three with the flags \<^verbatim>\<open>gi\<close>:
  \<^verbatim>\<open>/\b(10\.\d{4,}\/[^\s]+)/\<close>, \<^verbatim>\<open>/doi\.org\/(10\.\d{4,}\/[^\s]+)/\<close> and
  \<^verbatim>\<open>/doi[:\s]+(10\.\d{4,}\/[^\s]+)/\<close>.
\<close>

definition DOI_PATTERNS_standard :: rx where
  "DOI_PATTERNS_standard = Seqs [WordB, Grp 1 doiBody]"

definition DOI_PATTERNS_url :: rx where
  "DOI_PATTERNS_url = Seqs [Lit ''doi.org/'', Grp 1 doiBody]"

definition DOI_PATTERNS_embedded :: rx where
  "DOI_PATTERNS_embedded =
     Seqs [Lit ''doi'', Plus (Cls (\<lambda>c. c = CHR '':'' \<or> isWhiteSpace c)), Grp 1 doiBody]"

definition DOI_PATTERNS :: "(string \<times> rx) list" where
  "DOI_PATTERNS =
     [(''standard'', DOI_PATTERNS_standard),
      (''url'', DOI_PATTERNS_url),
      (''embedded'', DOI_PATTERNS_embedded)]"

text \<open>
  The patterns of \<^verbatim>\<open>SOURCE_PATTERNS\<close> (lines 14-28) that the code uses, all with the
  flag \<^verbatim>\<open>i\<close>, and the pattern \<^verbatim>\<open>/10\.\d{4,}\/[^\s&?]+/\<close> of line 297.
\<close>

definition SOURCE_PATTERNS_arxiv :: rx where
  "SOURCE_PATTERNS_arxiv =
     Seqs [Lit ''arxiv.org/'', Alt (Lit ''abs'') (Lit ''pdf''), Chr CHR ''/'',
           Grp 1 (Seqs [Plus Digit, Chr CHR ''.'', Plus Digit])]"

definition SOURCE_PATTERNS_pubmed :: rx where
  "SOURCE_PATTERNS_pubmed = Seqs [Lit ''pubmed.ncbi.nlm.nih.gov/'', Grp 1 (Plus Digit)]"

definition SOURCE_PATTERNS_doi :: rx where
  "SOURCE_PATTERNS_doi = Seqs [Lit ''doi.org/'', Grp 1 doiBody]"

definition SOURCE_PATTERNS_springer :: rx where
  "SOURCE_PATTERNS_springer =
     Seqs [Lit ''link.springer.com/'', Alt (Lit ''article'') (Lit ''chapter''), Chr CHR ''/'',
           Grp 1 doiBody]"

definition SOURCE_PATTERNS_wiley :: rx where
  "SOURCE_PATTERNS_wiley =
     Seqs [Lit ''onlinelibrary.wiley.com/doi/'', Alt (Lit ''abs'') (Lit ''full''), Chr CHR ''/'',
           Grp 1 doiBody]"

definition SOURCE_PATTERNS_acm :: rx where
  "SOURCE_PATTERNS_acm =
     Seqs [Lit ''dl.acm.org/doi/'', Alt (Lit ''abs'') (Lit ''full''), Chr CHR ''/'', Grp 1 doiBody]"

definition SOURCE_PATTERNS_plos :: rx where
  "SOURCE_PATTERNS_plos = Seqs [Lit ''journals.plos.org/plosone/article?id='', Grp 1 doiBody]"

definition embeddedDoiPattern :: rx where
  "embeddedDoiPattern =
     Seqs [Lit ''10.'', Digits4, Star Digit, Chr CHR ''/'',
           Plus (Cls (\<lambda>c. \<not> isWhiteSpace c \<and> c \<noteq> CHR ''&'' \<and> c \<noteq> CHR ''?''))]"

text \<open>
  \<^verbatim>\<open>cleanDOI\<close> (lines 72-77): the replacements of \<^verbatim>\<open>/^doi:?\s*/i\<close> and of
  \<^verbatim>\<open>/^https?:\/\/(?:dx\.)?doi\.org\//i\<close> by the empty string, then \<^verbatim>\<open>trim\<close>.
\<close>

definition cleanDOI :: "string \<Rightarrow> string" where
  "cleanDOI doi =
     trim
       (rx_replace True
          (Seqs [Bol, Lit ''http'', Opt (Chr CHR ''s''), Lit ''://'', Opt (Lit ''dx.''), Lit ''doi.org/'']) []
          (rx_replace True (Seqs [Bol, Lit ''doi'', Opt (Chr CHR '':''), Star Space]) [] doi))"

text \<open>
  The loop of \<^verbatim>\<open>extractDOI\<close> over the entries of \<^verbatim>\<open>DOI_PATTERNS\<close> (lines 38-45).
  With the \<^verbatim>\<open>g\<close> flag \<^verbatim>\<open>match\<close> is the array of the matched texts, so \<^verbatim>\<open>match[1]\<close>
  is the second match, and \<^verbatim>\<open>cleanDOI(undefined)\<close> throws when there is none.
\<close>

fun extractDOI_title :: "(string \<times> rx) list \<Rightarrow> string \<Rightarrow> js_error + string option" where
  "extractDOI_title [] title = Inr None"
| "extractDOI_title ((type, pattern) # patterns) title =
     (case rx_match_all True pattern title of
        None \<Rightarrow> extractDOI_title patterns title
      | Some match \<Rightarrow>
          if type = ''standard'' then Inr (Some (cleanDOI (hd match)))
          else (case tl match of
                  [] \<Rightarrow> Inl TypeError
                | doi # _ \<Rightarrow> Inr (Some (cleanDOI doi))))"

text \<open>The second step of \<^verbatim>\<open>extractDOI\<close> (lines 49-63), on a URL that is a string.\<close>

definition extractDOI_url :: "string \<Rightarrow> string option" where
  "extractDOI_url url =
     (case rx_exec True SOURCE_PATTERNS_doi url of
        Some doiMatch \<Rightarrow> Some (cleanDOI (group doiMatch 1))
      | None \<Rightarrow>
          (case rx_match_all True DOI_PATTERNS_standard url of
             Some urlDoi \<Rightarrow> Some (cleanDOI (hd urlDoi))
           | None \<Rightarrow> None))"

text \<open>
  \<^verbatim>\<open>extractDOI\<close> (lines 33-67). A title or a URL that is truthy and not a string has no
  \<^verbatim>\<open>match\<close> method: the call throws.
\<close>

definition extractDOI :: "jsobj \<Rightarrow> js_error + string option" where
  "extractDOI source =
     (case (if truthy (field source ''title'')
            then (case field source ''title'' of
                    JStr title \<Rightarrow> extractDOI_title DOI_PATTERNS title
                  | _ \<Rightarrow> Inl TypeError)
            else Inr None) of
        Inl e \<Rightarrow> Inl e
      | Inr (Some doi) \<Rightarrow> Inr (Some doi)
      | Inr None \<Rightarrow>
          if truthy (field source ''url'')
          then (case field source ''url'' of
                  JStr url \<Rightarrow> Inr (extractDOI_url url)
                | _ \<Rightarrow> Inl TypeError)
          else Inr None)"

subsection \<open>metadata-extractor.js: resolution by identifier\<close>

text \<open>The function mapped over \<^verbatim>\<open>work.author\<close> (lines 108-113); \<open>None\<close> when it throws.\<close>

definition crossRefAuthorName :: "env \<Rightarrow> jsval \<Rightarrow> jsval option" where
  "crossRefAuthorName env a =
     (if nullish a then None
      else if truthy (get a ''given'') \<and> truthy (get a ''family'')
           then Some (JStr (str env (get a ''given'') @ '' '' @ str env (get a ''family'')))
           else Some (js_or (js_or (get a ''family'') (get a ''name'')) (JStr [])))"

text \<open>\<^verbatim>\<open>s.padStart(2, '0')\<close>.\<close>

definition padStart2 :: "string \<Rightarrow> string" where
  "padStart2 s = replicate (2 - length s) CHR ''0'' @ s"

text \<open>
  The destructuring \<^verbatim>\<open>const [year, month, day] = v\<close>: the first three elements of an
  array or of a string, and a thrown \<^verbatim>\<open>TypeError\<close> on a value that is not iterable.
\<close>

fun destructure3 :: "jsval \<Rightarrow> (jsval \<times> jsval \<times> jsval) option" where
  "destructure3 (JArr xs) =
     Some (case xs of [] \<Rightarrow> JUndefined | a # _ \<Rightarrow> a,
           case drop 1 xs of [] \<Rightarrow> JUndefined | b # _ \<Rightarrow> b,
           case drop 2 xs of [] \<Rightarrow> JUndefined | c # _ \<Rightarrow> c)"
| "destructure3 (JStr s) =
     Some (case s of [] \<Rightarrow> JUndefined | a # _ \<Rightarrow> JStr [a],
           case drop 1 s of [] \<Rightarrow> JUndefined | b # _ \<Rightarrow> JStr [b],
           case drop 2 s of [] \<Rightarrow> JUndefined | c # _ \<Rightarrow> JStr [c])"
| "destructure3 v = None"

text \<open>\<^verbatim>\<open>formatCrossRefDate\<close> (lines 139-152); \<open>None\<close> when it throws.\<close>

definition formatCrossRefDate :: "env \<Rightarrow> jsval \<Rightarrow> string option" where
  "formatCrossRefDate env dateObj =
     (if \<not> truthy dateObj \<or> \<not> truthy (get dateObj ''date-parts'')
         \<or> \<not> truthy (at0 (get dateObj ''date-parts''))
      then Some []
      else (case destructure3 (at0 (get dateObj ''date-parts'')) of
              None \<Rightarrow> None
            | Some (yr, month, day) \<Rightarrow>
                if truthy month \<and> truthy day
                then Some (str env yr @ ''-'' @ padStart2 (str env month) @ ''-'' @ padStart2 (str env day))
                else if truthy month
                then Some (str env yr @ ''-'' @ padStart2 (str env month))
                else Some (str env yr)))"

text \<open>The chain \<^verbatim>\<open>d?.['date-parts']?.[0]?.[0]\<close>.\<close>

definition datePartsYear :: "jsval \<Rightarrow> jsval" where
  "datePartsYear d = at0 (at0 (get d ''date-parts''))"

text \<open>
  The object literal of \<^verbatim>\<open>getMetadataFromDOI\<close> (lines 103-129), from \<^verbatim>\<open>work\<close>.
  The read \<^verbatim>\<open>work.title\<close> of line 103 throws when \<^verbatim>\<open>work\<close> is \<^verbatim>\<open>null\<close> or
  \<^verbatim>\<open>undefined\<close>; the mapping of the authors and the date can throw; every exception is
  caught by the function and turned into \<^verbatim>\<open>null\<close>.
\<close>

definition crossRefWorkToMetadata :: "env \<Rightarrow> jsval \<Rightarrow> jsobj option" where
  "crossRefWorkToMetadata env work =
     (if nullish work then None
      else
     (case js_map (crossRefAuthorName env) (get work ''author'') of
        None \<Rightarrow> None
      | Some authors \<Rightarrow>
     (case formatCrossRefDate env (js_or (get work ''published'') (get work ''created'')) of
        None \<Rightarrow> None
      | Some date \<Rightarrow>
          Some (map_of
            [(''title'', js_or (at0 (get work ''title'')) (JStr [])),
             (''authors'', js_or authors (JArr [])),
             (''doi'', get work ''DOI''),
             (''abstract'', js_or (get work ''abstract'') (JStr [])),
             (''year'', js_or (js_or (datePartsYear (get work ''published''))
                                      (datePartsYear (get work ''created''))) (JStr [])),
             (''journal'', js_or (at0 (get work ''container-title'')) (JStr [])),
             (''volume'', js_or (get work ''volume'') (JStr [])),
             (''issue'', js_or (get work ''issue'') (JStr [])),
             (''pages'', js_or (get work ''page'') (JStr [])),
             (''publisher'', js_or (get work ''publisher'') (JStr [])),
             (''issn'', js_or (at0 (get work ''ISSN'')) (JStr [])),
             (''url'', js_or (get work ''URL'') (JStr (''https://doi.org/'' @ str env (get work ''DOI'')))),
             (''type'', js_or (get work ''type'') (JStr ''journal-article'')),
             (''confidence'', JNum 100),
             (''enrichmentSource'', JStr ''CrossRef (DOI)''),
             (''date'', JStr date)]))))"

text \<open>
  \<^verbatim>\<open>getMetadataFromDOI\<close> (lines 83-134). The request is keyed by the text of the
  identifier that the template literal puts into the address.
\<close>

definition getMetadataFromDOI :: "env \<Rightarrow> jsval \<Rightarrow> jsobj option" where
  "getMetadataFromDOI env doi =
     (case fetchCrossRefWork env (str env doi) of
        FetchFailed \<Rightarrow> None
      | Response status body \<Rightarrow>
          if \<not> resp_ok status then None
          else (case body of
                  None \<Rightarrow> None
                | Some data \<Rightarrow>
                    if nullish data then None
                    else crossRefWorkToMetadata env (get data ''message'')))"

subsection \<open>metadata-extractor.js: the hybrid chain\<close>

text \<open>The loop over \<^verbatim>\<open>publisherPatterns\<close> (lines 287-294): the capture of the first pattern that matches.\<close>

fun publisherDoi :: "rx list \<Rightarrow> string \<Rightarrow> string option" where
  "publisherDoi [] url = None"
| "publisherDoi (pattern # publisherPatterns) url =
     (case rx_exec True pattern url of
        Some match \<Rightarrow> Some (group match 1)
      | None \<Rightarrow> publisherDoi publisherPatterns url)"

text \<open>\<^verbatim>\<open>getMetadataFromURL\<close> (lines 255-305), on a URL that is a string.\<close>

definition getMetadataFromURL :: "env \<Rightarrow> string \<Rightarrow> jsobj option" where
  "getMetadataFromURL env url =
     (case rx_exec True SOURCE_PATTERNS_arxiv url of
        Some arxivMatch \<Rightarrow> getMetadataFromArxiv env (group arxivMatch 1)
      | None \<Rightarrow>
     (case rx_exec True SOURCE_PATTERNS_pubmed url of
        Some pubmedMatch \<Rightarrow> getMetadataFromPubMed env (group pubmedMatch 1)
      | None \<Rightarrow>
     (case rx_exec True SOURCE_PATTERNS_doi url of
        Some doiMatch \<Rightarrow> getMetadataFromDOI env (JStr (group doiMatch 1))
      | None \<Rightarrow>
     (case publisherDoi
             [SOURCE_PATTERNS_springer, SOURCE_PATTERNS_wiley, SOURCE_PATTERNS_acm, SOURCE_PATTERNS_plos]
             url of
        Some doi \<Rightarrow> getMetadataFromDOI env (JStr doi)
      | None \<Rightarrow>
     (case rx_exec False embeddedDoiPattern url of
        Some embeddedDoi \<Rightarrow> getMetadataFromDOI env (JStr (matched embeddedDoi))
      | None \<Rightarrow> None)))))"

text \<open>
  \<^verbatim>\<open>findDOIByTitle\<close> (lines 311-352). The call \<^verbatim>\<open>title.substring(0, 60)\<close> of line
  312 stands before the \<^verbatim>\<open>try\<close>: it throws to the caller when the title is not a
  string. Everything thrown after it is caught and turned into \<^verbatim>\<open>null\<close>.
\<close>

definition findDOIByTitle :: "env \<Rightarrow> jsval \<Rightarrow> js_error + jsval" where
  "findDOIByTitle env title =
     (case title of
        JStr t \<Rightarrow>
          Inr (case fetchCrossRefDOISearch env t of
                 FetchFailed \<Rightarrow> JNull
               | Response status body \<Rightarrow>
                   if \<not> resp_ok status then JNull
                   else (case body of
                           None \<Rightarrow> JNull
                         | Some data \<Rightarrow>
                             if nullish data then JNull
                             else
                               (let items = js_or (get (get data ''message'') ''items'') (JArr [])
                                in if get items ''length'' = JNum 0 then JNull
                                   else
                                     (let firstResult = at0 items
                                      in if nullish firstResult then JNull
                                         else
                                           (let score = js_or (get firstResult ''score'') (JNum 0)
                                            in if lt env score 30 then JNull
                                               else get firstResult ''DOI'')))))
      | _ \<Rightarrow> Inl TypeError)"

text \<open>
  \<^verbatim>\<open>extractMetadataHybrid\<close> (lines 358-394). \<^verbatim>\<open>source.url.match\<close> throws on a URL
  that is truthy and not a string.
\<close>

definition extractMetadataHybrid :: "env \<Rightarrow> jsobj \<Rightarrow> js_error + jsobj option" where
  "extractMetadataHybrid env source =
     (case extractDOI source of
        Inl e \<Rightarrow> Inl e
      | Inr doi \<Rightarrow>
     (case (case doi of
              None \<Rightarrow> None
            | Some d \<Rightarrow> if d \<noteq> [] then getMetadataFromDOI env (JStr d) else None) of
        Some metadata \<Rightarrow> Inr (Some ((source ++ metadata)(''hadDOI'' \<mapsto> JBool True)))
      | None \<Rightarrow>
     (case (if truthy (field source ''url'')
            then (case field source ''url'' of
                    JStr url \<Rightarrow> Inr (getMetadataFromURL env url)
                  | _ \<Rightarrow> Inl TypeError)
            else Inr None) of
        Inl e \<Rightarrow> Inl e
      | Inr (Some metadata) \<Rightarrow> Inr (Some ((source ++ metadata)(''hadURL'' \<mapsto> JBool True)))
      | Inr None \<Rightarrow>
     (case findDOIByTitle env (field source ''title'') of
        Inl e \<Rightarrow> Inl e
      | Inr doi2 \<Rightarrow>
     (case (if truthy doi2 then getMetadataFromDOI env doi2 else None) of
        Some metadata \<Rightarrow>
          Inr (Some ((source ++ metadata)(''hadDOI'' \<mapsto> JBool True, ''foundByTitle'' \<mapsto> JBool True)))
      | None \<Rightarrow> Inr None)))))"

subsection \<open>enrichment.js: the filename parser\<close>

definition hexDigitValue :: "char \<Rightarrow> nat option" where
  "hexDigitValue c =
     (let n = of_char c :: int
      in if 48 \<le> n \<and> n \<le> 57 then Some (nat (n - 48))
         else if 97 \<le> n \<and> n \<le> 102 then Some (nat (n - 87))
         else if 65 \<le> n \<and> n \<le> 70 then Some (nat (n - 55))
         else None)"

definition digitsToNat :: "nat \<Rightarrow> string \<Rightarrow> nat" where
  "digitsToNat radix ds =
     foldl (\<lambda>a d. radix * a + (case hexDigitValue d of None \<Rightarrow> 0 | Some v \<Rightarrow> v)) 0 ds"

text \<open>
  \<^verbatim>\<open>parseInt(s)\<close> without a radix: leading white space, a sign, then the longest run
  of decimal digits, or of hexadecimal digits after \<^verbatim>\<open>0x\<close>; \<open>None\<close> is \<^verbatim>\<open>NaN\<close>.
\<close>

definition parseInt :: "string \<Rightarrow> int option" where
  "parseInt s =
     (let t = dropWhile isWhiteSpace s;
          neg = (case t of [] \<Rightarrow> False | c # _ \<Rightarrow> c = CHR ''-'');
          u = (case t of [] \<Rightarrow> [] | c # cs \<Rightarrow> if c = CHR ''-'' \<or> c = CHR ''+'' then cs else t);
          hex = (take 2 u = ''0x'' \<or> take 2 u = ''0X'');
          ds = (if hex then takeWhile (\<lambda>c. hexDigitValue c \<noteq> None) (drop 2 u) else takeWhile isDigit u)
      in if ds = [] then None
         else Some ((if neg then - 1 else 1) * int (digitsToNat (if hex then 16 else 10) ds)))"

text \<open>
  The result of \<^verbatim>\<open>parseFilenameMetadata\<close>: \<open>None\<close> is \<^verbatim>\<open>null\<close>. (The year is parsed
  from four digits, so it is never \<^verbatim>\<open>NaN\<close>.)
\<close>

record filename_metadata =
  author :: "string option"
  year :: "int option"

text \<open>
  The class \<^verbatim>\<open>[-...]\<close> of the patterns 1 and 3 holds the hyphen, the en dash and the em
  dash; the hyphen is the only one of them below U+0100.
\<close>

definition dash :: rx where
  "dash = Chr CHR ''-''"

text \<open>
  The four patterns of \<^verbatim>\<open>parseFilenameMetadata\<close> (lines 247, 256, 265 and 274); the
  first has the flag \<^verbatim>\<open>i\<close>:
  \<^verbatim>\<open>/^([^-]+?)\s+et\s+al\.?\s*[-...]\s*(\d{4})/i\<close>,
  \<^verbatim>\<open>/^([^(]+?)\s*\((\d{4})\)/\<close>,
  \<^verbatim>\<open>/^([A-Z][a-z]+(?:-[A-Z][a-z]+)?)\s*[-...]\s*(\d{4})/\<close> and
  \<^verbatim>\<open>/^([A-Z][a-z]+(?:\s+[A-Z][a-z]+)?)\s*(\d{4})\s+/\<close>.
\<close>

definition pattern1 :: rx where
  "pattern1 =
     Seqs [Bol, Grp 1 (PlusLazy (Cls (\<lambda>c. c \<noteq> CHR ''-''))), Plus Space, Lit ''et'', Plus Space,
           Lit ''al'', Opt (Chr CHR ''.''), Star Space, dash, Star Space, Grp 2 Digits4]"

definition pattern2 :: rx where
  "pattern2 =
     Seqs [Bol, Grp 1 (PlusLazy (Cls (\<lambda>c. c \<noteq> CHR ''(''))), Star Space, Chr CHR ''('',
           Grp 2 Digits4, Chr CHR '')'']"

definition pattern3 :: rx where
  "pattern3 =
     Seqs [Bol, Grp 1 (Seqs [Upper, Plus Lower, Opt (Seqs [Chr CHR ''-'', Upper, Plus Lower])]),
           Star Space, dash, Star Space, Grp 2 Digits4]"

definition pattern4 :: rx where
  "pattern4 =
     Seqs [Bol, Grp 1 (Seqs [Upper, Plus Lower, Opt (Seqs [Plus Space, Upper, Plus Lower])]),
           Star Space, Grp 2 Digits4, Plus Space]"

text \<open>The pattern \<^verbatim>\<open>/\s+(&|and)\s+.*/\<close> of line 259.\<close>

definition coauthorSuffix :: rx where
  "coauthorSuffix = Seqs [Plus Space, Grp 1 (Alt (Lit ''&'') (Lit ''and'')), Plus Space, Star Dot]"

text \<open>\<^verbatim>\<open>parseFilenameMetadata\<close> (lines 243-283).\<close>

definition parseFilenameMetadata :: "string \<Rightarrow> filename_metadata" where
  "parseFilenameMetadata title =
     (case rx_exec True pattern1 title of
        Some match1 \<Rightarrow> \<lparr>author = Some (trim (group match1 1)), year = parseInt (group match1 2)\<rparr>
      | None \<Rightarrow>
     (case rx_exec False pattern2 title of
        Some match2 \<Rightarrow>
          \<lparr>author = Some (trim (rx_replace False coauthorSuffix [] (group match2 1))),
           year = parseInt (group match2 2)\<rparr>
      | None \<Rightarrow>
     (case rx_exec False pattern3 title of
        Some match3 \<Rightarrow> \<lparr>author = Some (trim (group match3 1)), year = parseInt (group match3 2)\<rparr>
      | None \<Rightarrow>
     (case rx_exec False pattern4 title of
        Some match4 \<Rightarrow> \<lparr>author = Some (trim (group match4 1)), year = parseInt (group match4 2)\<rparr>
      | None \<Rightarrow> \<lparr>author = None, year = None\<rparr>))))"

subsection \<open>enrichment.js: the title search chain\<close>

text \<open>
  The patterns of \<^verbatim>\<open>cleanTitleForSearch\<close> (lines 678-683):
  \<^verbatim>\<open>/\.(pdf|docx?|xlsx?|pptx?)$/i\<close>, \<^verbatim>\<open>/["']/g\<close>,
  \<^verbatim>\<open>/\s*-\s*(arXiv|ResearchGate|YouTube).*$/i\<close>, \<^verbatim>\<open>/\s+et\s+al\.?\s*/i\<close>,
  \<^verbatim>\<open>/\s*\d{4}\s*-\s*/g\<close> and \<^verbatim>\<open>/\s+/g\<close>.
\<close>

definition fileExtensionPattern :: rx where
  "fileExtensionPattern =
     Seqs [Chr CHR ''.'',
           Grp 1 (Alts (Lit ''pdf'')
                    [Seqs [Lit ''doc'', Opt (Chr CHR ''x'')],
                     Seqs [Lit ''xls'', Opt (Chr CHR ''x'')],
                     Seqs [Lit ''ppt'', Opt (Chr CHR ''x'')]]),
           Eol]"

definition quotePattern :: rx where
  "quotePattern = Cls (\<lambda>c. c = CHR 0x22 \<or> c = CHR 0x27)"

definition platformSuffixPattern :: rx where
  "platformSuffixPattern =
     Seqs [Star Space, Chr CHR ''-'', Star Space,
           Grp 1 (Alts (Lit ''arXiv'') [Lit ''ResearchGate'', Lit ''YouTube'']),
           Star Dot, Eol]"

definition etAlPattern :: rx where
  "etAlPattern = Seqs [Plus Space, Lit ''et'', Plus Space, Lit ''al'', Opt (Chr CHR ''.''), Star Space]"

definition standaloneYearPattern :: rx where
  "standaloneYearPattern = Seqs [Star Space, Digits4, Star Space, Chr CHR ''-'', Star Space]"

text \<open>\<^verbatim>\<open>cleanTitleForSearch\<close> (lines 676-685).\<close>

definition cleanTitleForSearch :: "string \<Rightarrow> string" where
  "cleanTitleForSearch title =
     trim
       (rx_replace_all False (Plus Space) '' ''
         (rx_replace_all False standaloneYearPattern '' ''
           (rx_replace True etAlPattern '' ''
             (rx_replace True platformSuffixPattern []
               (rx_replace_all False quotePattern []
                 (rx_replace True fileExtensionPattern [] title))))))"

text \<open>
  The function mapped over \<^verbatim>\<open>item.author\<close> by \<^verbatim>\<open>queryCrossRef\<close> and
  \<^verbatim>\<open>queryWithAuthorYear\<close> (lines 315 and 364); \<open>None\<close> when it throws.
\<close>

definition crossRefItemAuthor :: "env \<Rightarrow> jsval \<Rightarrow> jsval option" where
  "crossRefItemAuthor env a =
     (if nullish a then None
      else Some (JStr (trim (str env (js_or (get a ''given'') (JStr [])) @ '' ''
                             @ str env (js_or (get a ''family'') (JStr []))))))"

text \<open>
  The common opening of \<^verbatim>\<open>queryWithAuthorYear\<close> (lines 295-304) and of
  \<^verbatim>\<open>queryCrossRef\<close> (lines 343-353): the first item of the answer, and \<open>None\<close>
  where the function returns \<^verbatim>\<open>null\<close> (a rejected request, a status that is not ok, a
  body that does not parse, a thrown \<^verbatim>\<open>TypeError\<close>, no item).
\<close>

definition firstItem :: "response \<Rightarrow> jsval option" where
  "firstItem resp =
     (case resp of
        FetchFailed \<Rightarrow> None
      | Response status body \<Rightarrow>
          if \<not> resp_ok status then None
          else (case body of
                  None \<Rightarrow> None
                | Some data \<Rightarrow>
                    if nullish data then None
                    else if \<not> truthy (get (get (get data ''message'') ''items'') ''length'') then None
                    else Some (at0 (get (get data ''message'') ''items''))))"

text \<open>
  The call \<^verbatim>\<open>calculateTitleSimilarity(title, v)\<close>: \<^verbatim>\<open>v.toLowerCase()\<close> throws
  (\<open>None\<close>) when \<open>v\<close> is not a string.
\<close>

definition similarityTo :: "string \<Rightarrow> jsval \<Rightarrow> rat option" where
  "similarityTo title v =
     (case v of JStr title2 \<Rightarrow> Some (calculateTitleSimilarity title title2) | _ \<Rightarrow> None)"

text \<open>\<^verbatim>\<open>queryWithAuthorYear\<close> (lines 288-333).\<close>

definition queryWithAuthorYear :: "env \<Rightarrow> string \<Rightarrow> int \<Rightarrow> string \<Rightarrow> jsobj option" where
  "queryWithAuthorYear env au yr title =
     (case firstItem (fetchCrossRefAuthorYear env au yr title) of
        None \<Rightarrow> None
      | Some item \<Rightarrow>
          if nullish item then None
          else
     (case similarityTo title (js_or (at0 (get item ''title'')) (JStr [])) of
        None \<Rightarrow> None
      | Some titleConfidence \<Rightarrow>
          (let yearMatch = (if datePartsYear (get item ''published'') = JNum (of_int yr) then 2 / 10 else 0);
               confidence = min 1 (titleConfidence + yearMatch)
           in if confidence < 7 / 10 then None
              else
     (case js_map (crossRefItemAuthor env) (get item ''author'') of
        None \<Rightarrow> None
      | Some authors \<Rightarrow>
          Some (map_of
            [(''title'', js_or (at0 (get item ''title'')) (JStr title)),
             (''authors'', js_or authors (JArr [])),
             (''doi'', js_or (get item ''DOI'') JNull),
             (''journal'', js_or (at0 (get item ''container-title'')) JNull),
             (''volume'', js_or (get item ''volume'') JNull),
             (''issue'', js_or (get item ''issue'') JNull),
             (''pages'', js_or (get item ''page'') JNull),
             (''year'', js_or (datePartsYear (get item ''published'')) (JNum (of_int yr))),
             (''abstract'', js_or (get item ''abstract'') JNull),
             (''publisher'', js_or (get item ''publisher'') JNull),
             (''issn'', js_or (at0 (get item ''ISSN'')) JNull),
             (''url'', js_or (get item ''URL'')
                         (if truthy (get item ''DOI'')
                          then JStr (''https://doi.org/'' @ str env (get item ''DOI'')) else JNull)),
             (''confidence'', JNum confidence)])))))"

text \<open>\<^verbatim>\<open>queryCrossRef\<close> (lines 338-383).\<close>

definition queryCrossRef :: "env \<Rightarrow> string \<Rightarrow> jsobj option" where
  "queryCrossRef env title =
     (case firstItem (fetchCrossRefTitle env title) of
        None \<Rightarrow> None
      | Some item \<Rightarrow>
          if nullish item then None
          else
     (case similarityTo title (js_or (at0 (get item ''title'')) (JStr [])) of
        None \<Rightarrow> None
      | Some confidence \<Rightarrow>
          if confidence < 7 / 10 then None
          else
     (case js_map (crossRefItemAuthor env) (get item ''author'') of
        None \<Rightarrow> None
      | Some authors \<Rightarrow>
          Some (map_of
            [(''title'', js_or (at0 (get item ''title'')) (JStr title)),
             (''authors'', js_or authors (JArr [])),
             (''doi'', js_or (get item ''DOI'') JNull),
             (''journal'', js_or (at0 (get item ''container-title'')) JNull),
             (''volume'', js_or (get item ''volume'') JNull),
             (''issue'', js_or (get item ''issue'') JNull),
             (''pages'', js_or (get item ''page'') JNull),
             (''year'', js_or (js_or (datePartsYear (get item ''published''))
                                      (datePartsYear (get item ''created''))) JNull),
             (''abstract'', js_or (get item ''abstract'') JNull),
             (''publisher'', js_or (get item ''publisher'') JNull),
             (''issn'', js_or (at0 (get item ''ISSN'')) JNull),
             (''url'', js_or (get item ''URL'')
                         (if truthy (get item ''DOI'')
                          then JStr (''https://doi.org/'' @ str env (get item ''DOI'')) else JNull)),
             (''confidence'', JNum confidence),
             (''citations'', js_or (get item ''is-referenced-by-count'') JNull)]))))"

text \<open>The test \<^verbatim>\<open>metadata && metadata.confidence >= threshold\<close> of \<^verbatim>\<open>enrichAcademic\<close>.\<close>

definition atLeast :: "env \<Rightarrow> rat \<Rightarrow> jsobj option \<Rightarrow> jsobj option" where
  "atLeast env threshold metadata =
     (case metadata of
        None \<Rightarrow> None
      | Some m \<Rightarrow> if ge env (field m ''confidence'') threshold then Some m else None)"

text \<open>
  The first strategy of \<^verbatim>\<open>enrichAcademic\<close> (lines 207-212): the structured query, when
  the parsed author and the parsed year are both truthy, and its candidate when accepted.
\<close>

definition structuredQuery :: "env \<Rightarrow> filename_metadata \<Rightarrow> string \<Rightarrow> jsobj option" where
  "structuredQuery env parsed cleanTitle =
     (case author parsed of
        None \<Rightarrow> None
      | Some au \<Rightarrow>
          (case year parsed of
             None \<Rightarrow> None
           | Some yr \<Rightarrow>
               if au \<noteq> [] \<and> yr \<noteq> 0
               then atLeast env (7 / 10) (queryWithAuthorYear env au yr cleanTitle)
               else None))"

text \<open>
  \<^verbatim>\<open>enrichAcademic\<close> (lines 199-234). \<^verbatim>\<open>title.replace\<close> throws on a title that is not
  a string.
\<close>

definition enrichAcademic :: "env \<Rightarrow> jsobj \<Rightarrow> js_error + jsobj" where
  "enrichAcademic env source =
     (case field source ''title'' of
        JStr title \<Rightarrow>
          (let cleanTitle = cleanTitleForSearch title;
               parsed = parseFilenameMetadata title
           in case structuredQuery env parsed cleanTitle of
                Some structuredMetadata \<Rightarrow>
                  Inr ((source ++ structuredMetadata)(''enrichmentType'' \<mapsto> JStr ''structured_query''))
              | None \<Rightarrow>
             (case atLeast env (7 / 10) (queryCrossRef env cleanTitle) of
                Some metadata \<Rightarrow> Inr ((source ++ metadata)(''enrichmentType'' \<mapsto> JStr ''crossref''))
              | None \<Rightarrow>
             (case atLeast env (65 / 100) (queryOpenAlex env cleanTitle) of
                Some metadata \<Rightarrow> Inr ((source ++ metadata)(''enrichmentType'' \<mapsto> JStr ''openalex''))
              | None \<Rightarrow>
             (case atLeast env (65 / 100) (querySemanticScholar env cleanTitle) of
                Some metadata \<Rightarrow>
                  Inr ((source ++ metadata)(''enrichmentType'' \<mapsto> JStr ''semanticscholar''))
              | None \<Rightarrow>
                  Inr (source(''confidence'' \<mapsto> JNum 0, ''enrichmentType'' \<mapsto> JStr ''none''))))))
      | _ \<Rightarrow> Inl TypeError)"

subsection \<open>enrichment.js: the other types\<close>

text \<open>\<^verbatim>\<open>enrichWeb\<close> (lines 553-611): without a URL, the record with confidence 0; else the page.\<close>

definition enrichWeb :: "env \<Rightarrow> jsobj \<Rightarrow> jsobj" where
  "enrichWeb env source =
     (if \<not> truthy (field source ''url'') then source(''confidence'' \<mapsto> JNum 0)
      else fetchWebPage env source)"

text \<open>
  The patterns of \<^verbatim>\<open>extractYoutubeId\<close> (lines 735-739):
  \<^verbatim>\<open>/(?:youtube\.com\/watch\?v=|youtu\.be\/)([a-zA-Z0-9_-]{11})/\<close>,
  \<^verbatim>\<open>/youtube\.com\/embed\/([a-zA-Z0-9_-]{11})/\<close> and \<^verbatim>\<open>/^([a-zA-Z0-9_-]{11})$/\<close>.
\<close>

definition videoIdChars :: rx where
  "videoIdChars =
     Rep 11 (Cls (\<lambda>c. isLowerAZ c \<or> isUpperAZ c \<or> isDigit c \<or> c = CHR ''_'' \<or> c = CHR ''-''))"

definition youtubePatterns :: "rx list" where
  "youtubePatterns =
     [Seqs [Alt (Lit ''youtube.com/watch?v='') (Lit ''youtu.be/''), Grp 1 videoIdChars],
      Seqs [Lit ''youtube.com/embed/'', Grp 1 videoIdChars],
      Seqs [Bol, Grp 1 videoIdChars, Eol]]"

fun firstGroup :: "rx list \<Rightarrow> string \<Rightarrow> string option" where
  "firstGroup [] text = None"
| "firstGroup (pattern # patterns) text =
     (case rx_exec False pattern text of
        Some match \<Rightarrow> Some (group match 1)
      | None \<Rightarrow> firstGroup patterns text)"

text \<open>\<^verbatim>\<open>extractYoutubeId\<close> (lines 732-747).\<close>

definition extractYoutubeId :: "jsval \<Rightarrow> js_error + string option" where
  "extractYoutubeId text =
     (if \<not> truthy text then Inr None
      else (case text of
              JStr t \<Rightarrow> Inr (firstGroup youtubePatterns t)
            | _ \<Rightarrow> Inl TypeError))"

text \<open>
  \<^verbatim>\<open>enrichYoutube\<close> (lines 617-671). The read of the key stands before the \<^verbatim>\<open>try\<close>:
  what it throws goes to the caller.
\<close>

definition enrichYoutube :: "env \<Rightarrow> jsobj \<Rightarrow> js_error + jsobj" where
  "enrichYoutube env source =
     (case extractYoutubeId (js_or (field source ''url'') (field source ''title'')) of
        Inl e \<Rightarrow> Inl e
      | Inr None \<Rightarrow> Inr (source(''confidence'' \<mapsto> JNum 0))
      | Inr (Some videoId) \<Rightarrow>
          if videoId = [] then Inr (source(''confidence'' \<mapsto> JNum 0))
          else (case youtubeApiKey env of
                  Inl e \<Rightarrow> Inl e
                | Inr apiKey \<Rightarrow>
                    if \<not> truthy apiKey
                    then Inr (source(''url'' \<mapsto> JStr (''https://youtube.com/watch?v='' @ videoId),
                                     ''confidence'' \<mapsto> JNum (3 / 10),
                                     ''enrichmentType'' \<mapsto> JStr ''youtube_nokey''))
                    else Inr (fetchYoutubeVideo env videoId apiKey source)))"

subsection \<open>enrichment.js: one record\<close>

text \<open>The pattern \<^verbatim>\<open>/\.(pdf|docx?)$/i\<close> of line 180.\<close>

definition documentExtensionPattern :: rx where
  "documentExtensionPattern =
     Seqs [Chr CHR ''.'', Grp 1 (Alt (Lit ''pdf'') (Seqs [Lit ''doc'', Opt (Chr CHR ''x'')])), Eol]"

text \<open>
  \<^verbatim>\<open>detectSourceType\<close> (lines 164-194). \<^verbatim>\<open>toLowerCase\<close> throws on a title that is
  not a string, and on a URL that is neither a string nor \<^verbatim>\<open>null\<close> or \<^verbatim>\<open>undefined\<close>.
\<close>

definition detectSourceType :: "jsobj \<Rightarrow> js_error + string" where
  "detectSourceType source =
     (case field source ''title'' of
        JStr t \<Rightarrow>
          (case (case field source ''url'' of
                   JUndefined \<Rightarrow> Inr []
                 | JNull \<Rightarrow> Inr []
                 | JStr u \<Rightarrow> Inr (toLowerCase u)
                 | _ \<Rightarrow> Inl TypeError) of
             Inl e \<Rightarrow> Inl e
           | Inr url \<Rightarrow>
               (let title = toLowerCase t
                in Inr
                  (if str_includes title ''youtube'' \<or> str_includes url ''youtube.com''
                      \<or> str_includes url ''youtu.be''
                   then ''youtube''
                   else if str_includes title ''arxiv'' \<or> str_includes url ''arxiv.org''
                   then ''arxiv''
                   else if field source ''type'' = JStr ''pdf''
                      \<or> rx_exec True documentExtensionPattern title \<noteq> None
                      \<or> rx_exec False Digits4 title \<noteq> None
                      \<or> str_includes title ''et al''
                      \<or> str_includes title ''journal''
                      \<or> str_includes title ''conference''
                   then ''academic''
                   else if url \<noteq> [] \<or> 20 < length title
                   then ''web''
                   else ''unknown'')))
      | _ \<Rightarrow> Inl TypeError)"

text \<open>
  The first part of \<^verbatim>\<open>enrichSource\<close> (lines 128-140): the result of the hybrid
  extraction when the function is loaded, returns an object and the object passes the test
  \<^verbatim>\<open>hybridMetadata.confidence >= 90\<close>; \<open>None\<close> in every other case, an exception
  included (the \<^verbatim>\<open>catch\<close> of line 138).
\<close>

definition hybridExtraction :: "env \<Rightarrow> jsobj \<Rightarrow> jsobj option" where
  "hybridExtraction env source =
     (if hybridLoaded env
      then (case extractMetadataHybrid env source of
              Inl e \<Rightarrow> None
            | Inr None \<Rightarrow> None
            | Inr (Some hybridMetadata) \<Rightarrow>
                if ge env (field hybridMetadata ''confidence'') 90 then Some hybridMetadata else None)
      else None)"

text \<open>The second part of \<^verbatim>\<open>enrichSource\<close> (lines 142-158): the original logic, by type.\<close>

definition originalEnrichment :: "env \<Rightarrow> jsobj \<Rightarrow> js_error + jsobj" where
  "originalEnrichment env source =
     (case detectSourceType source of
        Inl e \<Rightarrow> Inl e
      | Inr type \<Rightarrow>
          if type = ''academic'' then enrichAcademic env source
          else if type = ''arxiv'' then Inr (enrichArxiv env source)
          else if type = ''web'' then Inr (enrichWeb env source)
          else if type = ''youtube'' then enrichYoutube env source
          else Inr (source(''confidence'' \<mapsto> JNum 0, ''enrichmentType'' \<mapsto> JStr ''none'')))"

text \<open>\<^verbatim>\<open>enrichSource\<close> (lines 125-159).\<close>

definition enrichSource :: "env \<Rightarrow> jsobj \<Rightarrow> js_error + jsobj" where
  "enrichSource env source =
     (case hybridExtraction env source of
        Some hybridMetadata \<Rightarrow> Inr hybridMetadata
      | None \<Rightarrow> originalEnrichment env source)"

subsection \<open>enrichment.js: the batch runner\<close>

text \<open>The counters \<^verbatim>\<open>results\<close>.\<close>

record tallies =
  success :: nat
  partial :: nat
  failed :: nat

datatype outcome = Full | Partial | NoMatch

text \<open>
  What the runner passes to \<^verbatim>\<open>progressCallback\<close>: \<^verbatim>\<open>current\<close>, \<^verbatim>\<open>total\<close> and the
  first 60 characters of the title, with the status \<^verbatim>\<open>Processing...\<close>, with the type
  \<^verbatim>\<open>success\<close>, \<^verbatim>\<open>partial\<close> or \<^verbatim>\<open>failed\<close>, or with the type \<^verbatim>\<open>error\<close> and
  the message; and at the end the counters. A callback returns (\<open>None\<close>) or throws.
\<close>

datatype progress =
    Processing nat nat string
  | Classified nat nat string outcome
  | Errored nat nat string string
  | Complete nat nat tallies

type_synonym progressCallback = "progress \<Rightarrow> js_error option"

text \<open>\<^verbatim>\<open>source.title.substring(0, n)\<close>, which throws (\<open>None\<close>) on a title that is not a string.\<close>

definition titleSnippet :: "jsobj \<Rightarrow> nat \<Rightarrow> string option" where
  "titleSnippet source n = (case field source ''title'' of JStr t \<Rightarrow> Some (take n t) | _ \<Rightarrow> None)"

text \<open>The test \<^verbatim>\<open>enrichedSource.authors?.length > 0\<close> of lines 55 and 57.\<close>

definition hasAuthors :: "env \<Rightarrow> jsobj \<Rightarrow> bool" where
  "hasAuthors env enrichedSource = gt env (get (field enrichedSource ''authors'') ''length'') 0"

text \<open>The two values of lines 55-59, as the conditions of lines 61 and 70 read them.\<close>

definition hasFullMetadata :: "env \<Rightarrow> jsobj \<Rightarrow> bool" where
  "hasFullMetadata env enrichedSource =
     (hasAuthors env enrichedSource
      \<and> truthy (js_or (js_or (field enrichedSource ''doi'') (field enrichedSource ''abstract''))
                       (field enrichedSource ''journal'')))"

definition hasPartialMetadata :: "env \<Rightarrow> jsobj \<Rightarrow> bool" where
  "hasPartialMetadata env enrichedSource =
     truthy (js_or (js_or (JBool (hasAuthors env enrichedSource)) (field enrichedSource ''doi''))
                   (field enrichedSource ''abstract''))"

definition classify :: "env \<Rightarrow> jsobj \<Rightarrow> outcome" where
  "classify env enrichedSource =
     (if hasFullMetadata env enrichedSource then Full
      else if hasPartialMetadata env enrichedSource then Partial
      else NoMatch)"

fun tally :: "outcome \<Rightarrow> tallies \<Rightarrow> tallies" where
  "tally Full results = results\<lparr>success := success results + 1\<rparr>"
| "tally Partial results = results\<lparr>partial := partial results + 1\<rparr>"
| "tally NoMatch results = results\<lparr>failed := failed results + 1\<rparr>"

text \<open>The record of line 98: \<^verbatim>\<open>{ ...source, confidence: 0, error: error.message }\<close>.\<close>

definition errorRecord :: "jsobj \<Rightarrow> js_error \<Rightarrow> jsobj" where
  "errorRecord source error = source(''confidence'' \<mapsto> JNum 0, ''error'' \<mapsto> JStr (message error))"

text \<open>
  The loop of \<^verbatim>\<open>enrichSources\<close> (lines 39-108), from the index \<open>i\<close> on, with the array
  \<^verbatim>\<open>enriched\<close> and the counters as state. The first call of the callback (line 43)
  stands before the \<^verbatim>\<open>try\<close>. Inside the \<^verbatim>\<open>try\<close> the record is enriched, classified
  and counted, the callback is called, and the record is pushed; an exception of any of
  these steps goes to the \<^verbatim>\<open>catch\<close> with the counters as they are then.
\<close>

fun enrichSources_loop ::
  "env \<Rightarrow> progressCallback \<Rightarrow> nat \<Rightarrow> nat \<Rightarrow> jsobj list \<Rightarrow> jsobj list \<times> tallies
     \<Rightarrow> js_error + jsobj list \<times> tallies" where
  "enrichSources_loop env progressCallback len i [] (enriched, results) = Inr (enriched, results)"
| "enrichSources_loop env progressCallback len i (source # sources) (enriched, results) =
     (case titleSnippet source 60 of
        None \<Rightarrow> Inl TypeError
      | Some snippet \<Rightarrow>
     (case progressCallback (Processing (i + 1) len snippet) of
        Some e \<Rightarrow> Inl e
      | None \<Rightarrow>
     (case (case enrichSource env source of
              Inl error \<Rightarrow> Inl (error, results)
            | Inr enrichedSource \<Rightarrow>
                (let results' = tally (classify env enrichedSource) results
                 in case progressCallback
                           (Classified (i + 1) len snippet (classify env enrichedSource)) of
                      Some error \<Rightarrow> Inl (error, results')
                    | None \<Rightarrow> Inr (enriched @ [enrichedSource], results'))) of
        Inr state \<Rightarrow> enrichSources_loop env progressCallback len (i + 1) sources state
      | Inl (error, results') \<Rightarrow>
          (case progressCallback (Errored (i + 1) len snippet (message error)) of
             Some e \<Rightarrow> Inl e
           | None \<Rightarrow>
               enrichSources_loop env progressCallback len (i + 1) sources
                 (enriched @ [errorRecord source error],
                  results'\<lparr>failed := failed results' + 1\<rparr>)))))"

text \<open>
  \<^verbatim>\<open>enrichSources\<close> (lines 31-120). The function returns \<^verbatim>\<open>enriched\<close>; the counters
  reach the caller through the last call of the callback. The model returns both.
\<close>

definition enrichSources :: "env \<Rightarrow> jsobj list \<Rightarrow> progressCallback \<Rightarrow> js_error + jsobj list \<times> tallies" where
  "enrichSources env sources progressCallback =
     (case enrichSources_loop env progressCallback (length sources) 0 sources
             ([], \<lparr>success = 0, partial = 0, failed = 0\<rparr>) of
        Inl e \<Rightarrow> Inl e
      | Inr (enriched, results) \<Rightarrow>
          (case progressCallback (Complete (length sources) (length sources) results) of
             Some e \<Rightarrow> Inl e
           | None \<Rightarrow> Inr (enriched, results)))"

section \<open>The specification's side\<close>

subsection \<open>The similarity scorer as the specification words it\<close>

text \<open>
  The specification: normalize both strings (lowercase, strip all characters outside
  letters, digits and white space, collapse white space, trim); an exact match gives 1;
  otherwise the Jaccard similarity of the sets of tokens delimited by white space, plus 0.2
  when one normalized string is a substring of the other, clamped to 1. The normalization
  is a parameter of the definition, so that it can be stated with and without the collapse
  of white space. The tokens of a string are the non-empty pieces between its white space
  characters.
\<close>

fun splitEvery :: "string \<Rightarrow> string \<Rightarrow> string list" where
  "splitEvery cur [] = [rev cur]"
| "splitEvery cur (c # cs) =
     (if isWhiteSpace c then rev cur # splitEvery [] cs else splitEvery (c # cur) cs)"

definition tokens_spec :: "string \<Rightarrow> string set" where
  "tokens_spec s = set (filter (\<lambda>w. w \<noteq> []) (splitEvery [] s))"

definition jaccard_spec :: "string set \<Rightarrow> string set \<Rightarrow> rat" where
  "jaccard_spec A B = rat_of_nat (card (A \<inter> B)) / rat_of_nat (card (A \<union> B))"

fun collapseWhitespace :: "string \<Rightarrow> string" where
  "collapseWhitespace [] = []"
| "collapseWhitespace [c] = (if isWhiteSpace c then '' '' else [c])"
| "collapseWhitespace (c # d # cs) =
     (if isWhiteSpace c \<and> isWhiteSpace d then collapseWhitespace (d # cs)
      else (if isWhiteSpace c then CHR '' '' else c) # collapseWhitespace (d # cs))"

definition normalize_collapsing :: "string \<Rightarrow> string" where
  "normalize_collapsing t = trim (collapseWhitespace (stripNonAlnum (toLowerCase t)))"

definition normalize_plain :: "string \<Rightarrow> string" where
  "normalize_plain t = trim (stripNonAlnum (toLowerCase t))"

definition titleSimilarity_spec :: "(string \<Rightarrow> string) \<Rightarrow> string \<Rightarrow> string \<Rightarrow> rat" where
  "titleSimilarity_spec nrm a b =
     (let na = nrm a; nb = nrm b
      in if na = nb then 1
         else min 1 (jaccard_spec (tokens_spec na) (tokens_spec nb)
                     + (if sublist na nb \<or> sublist nb na then 2 / 10 else 0)))"

subsection \<open>The batch runner as the specification words it\<close>



text \<open>
  The record the runner emits for a source, and the class it counts the source in: the
  enriched record and its class, or the error record and a failure when the enrichment of
  the source throws.
\<close>

definition emitted :: "env \<Rightarrow> jsobj \<Rightarrow> jsobj" where
  "emitted env source =
     (case enrichSource env source of
        Inl error \<Rightarrow> errorRecord source error
      | Inr enrichedSource \<Rightarrow> enrichedSource)"

definition counted :: "env \<Rightarrow> jsobj \<Rightarrow> outcome" where
  "counted env source =
     (case enrichSource env source of
        Inl error \<Rightarrow> NoMatch
      | Inr enrichedSource \<Rightarrow> classify env enrichedSource)"

definition throws :: "env \<Rightarrow> jsobj \<Rightarrow> bool" where
  "throws env source = (case enrichSource env source of Inl error \<Rightarrow> True | Inr r \<Rightarrow> False)"

text \<open>An input record has a title that is a string.\<close>

definition hasTitle :: "jsobj \<Rightarrow> bool" where
  "hasTitle source = (case field source ''title'' of JStr t \<Rightarrow> True | _ \<Rightarrow> False)"

subsection \<open>The shapes of a filename as the specification words them\<close>

text \<open>
  The ``Author'' of the shapes ``Author et al - YYYY'' and ``Author (YYYY)'': a text that is
  not empty and has no white space, no hyphen and no opening parenthesis. The ``Author'' of
  the shapes ``Author - YYYY'' and ``Author YYYY'': a capitalized word, that is a capital
  letter followed by one or more small letters (the third shape also admits two such words
  joined by a hyphen, the fourth two such words separated by a space). ``YYYY'': four
  digits.
\<close>

definition authorName :: "string \<Rightarrow> bool" where
  "authorName a =
     (a \<noteq> [] \<and> list_all (\<lambda>c. \<not> isWhiteSpace c \<and> c \<noteq> CHR ''-'' \<and> c \<noteq> CHR ''('') a)"

definition capitalized :: "string \<Rightarrow> bool" where
  "capitalized w =
     (case w of [] \<Rightarrow> False | u # ls \<Rightarrow> isUpperAZ u \<and> ls \<noteq> [] \<and> list_all isLowerAZ ls)"

definition fourDigits :: "string \<Rightarrow> bool" where
  "fourDigits y = (length y = 4 \<and> list_all isDigit y)"

subsection \<open>The search by title as the specification words it\<close>

text \<open>
  The strategy that searches the identifier by title is the third step of the hybrid
  chain. It is reached when the first two steps return nothing: the record holds no
  identifier, or one that does not resolve; and the record has no URL, or a URL from which
  no candidate is obtained.
\<close>

definition titleSearchReached :: "env \<Rightarrow> jsobj \<Rightarrow> bool" where
  "titleSearchReached env source =
     ((case extractDOI source of
         Inl e \<Rightarrow> False
       | Inr None \<Rightarrow> True
       | Inr (Some doi) \<Rightarrow> doi = [] \<or> Option.is_none (getMetadataFromDOI env (JStr doi)))
      \<and> (case field source ''url'' of
            JStr url \<Rightarrow> url = [] \<or> Option.is_none (getMetadataFromURL env url)
          | v \<Rightarrow> \<not> truthy v))"

subsection \<open>The merge as the specification words it\<close>


text \<open>
  The winning candidate of a record in the hybrid chain, with the provenance fields of the
  step that wins: the candidate resolved from the identifier that the record holds; else
  the candidate obtained from the URL of the record; else the candidate resolved from the
  identifier that the search by title returns.
\<close>

inductive hybridWins :: "env \<Rightarrow> jsobj \<Rightarrow> jsobj \<Rightarrow> (string \<times> jsval) list \<Rightarrow> bool"
  for env :: env and source :: jsobj where
  by_identifier:
    "extractDOI source = Inr (Some doi) \<Longrightarrow> doi \<noteq> []
     \<Longrightarrow> getMetadataFromDOI env (JStr doi) = Some metadata
     \<Longrightarrow> hybridWins env source metadata [(''hadDOI'', JBool True)]"
| by_url:
    "extractDOI source = Inr own
     \<Longrightarrow> (case own of
            None \<Rightarrow> True
          | Some doi \<Rightarrow> doi = [] \<or> Option.is_none (getMetadataFromDOI env (JStr doi)))
     \<Longrightarrow> field source ''url'' = JStr url \<Longrightarrow> url \<noteq> []
     \<Longrightarrow> getMetadataFromURL env url = Some metadata
     \<Longrightarrow> hybridWins env source metadata [(''hadURL'', JBool True)]"
| by_title_search:
    "titleSearchReached env source
     \<Longrightarrow> findDOIByTitle env (field source ''title'') = Inr doi \<Longrightarrow> truthy doi
     \<Longrightarrow> getMetadataFromDOI env doi = Some metadata
     \<Longrightarrow> hybridWins env source metadata [(''hadDOI'', JBool True), (''foundByTitle'', JBool True)]"

text \<open>
  The winning candidate of a record in the chain of title searches of an academic record,
  with the provenance field of the strategy that wins: the first of the structured query,
  the search of CrossRef, of OpenAlex and of Semantic Scholar whose candidate reaches the
  threshold of the strategy.
\<close>

inductive academicWins :: "env \<Rightarrow> jsobj \<Rightarrow> jsobj \<Rightarrow> (string \<times> jsval) list \<Rightarrow> bool"
  for env :: env and source :: jsobj where
  by_structured_query:
    "field source ''title'' = JStr title
     \<Longrightarrow> structuredQuery env (parseFilenameMetadata title) (cleanTitleForSearch title) = Some metadata
     \<Longrightarrow> academicWins env source metadata [(''enrichmentType'', JStr ''structured_query'')]"
| by_crossref:
    "field source ''title'' = JStr title
     \<Longrightarrow> Option.is_none (structuredQuery env (parseFilenameMetadata title) (cleanTitleForSearch title))
     \<Longrightarrow> atLeast env (7 / 10) (queryCrossRef env (cleanTitleForSearch title)) = Some metadata
     \<Longrightarrow> academicWins env source metadata [(''enrichmentType'', JStr ''crossref'')]"
| by_openalex:
    "field source ''title'' = JStr title
     \<Longrightarrow> Option.is_none (structuredQuery env (parseFilenameMetadata title) (cleanTitleForSearch title))
     \<Longrightarrow> Option.is_none (atLeast env (7 / 10) (queryCrossRef env (cleanTitleForSearch title)))
     \<Longrightarrow> atLeast env (65 / 100) (queryOpenAlex env (cleanTitleForSearch title)) = Some metadata
     \<Longrightarrow> academicWins env source metadata [(''enrichmentType'', JStr ''openalex'')]"
| by_semanticscholar:
    "field source ''title'' = JStr title
     \<Longrightarrow> Option.is_none (structuredQuery env (parseFilenameMetadata title) (cleanTitleForSearch title))
     \<Longrightarrow> Option.is_none (atLeast env (7 / 10) (queryCrossRef env (cleanTitleForSearch title)))
     \<Longrightarrow> Option.is_none (atLeast env (65 / 100) (queryOpenAlex env (cleanTitleForSearch title)))
     \<Longrightarrow> atLeast env (65 / 100) (querySemanticScholar env (cleanTitleForSearch title)) = Some metadata
     \<Longrightarrow> academicWins env source metadata [(''enrichmentType'', JStr ''semanticscholar'')]"

section \<open>Example environments and records\<close>

text \<open>
  The concrete inputs of the examples below. In the environment \<open>offline\<close> every request
  is rejected and every client that is a field of the environment finds nothing. Its
  runtime prints a natural number in decimal, and it reads a number from a string as
  \<^verbatim>\<open>Number\<close> does: surrounding white space is dropped, the empty string is 0, a
  decimal literal may have a sign, a fraction and an exponent, a literal with the prefix
  \<^verbatim>\<open>0x\<close>, \<^verbatim>\<open>0o\<close> or \<^verbatim>\<open>0b\<close> is an integer in that radix, and any other text is
  \<^verbatim>\<open>NaN\<close> (so is \<^verbatim>\<open>Infinity\<close>, which is no rational number).
\<close>

definition readNumber :: "string \<Rightarrow> rat option" where
  "readNumber s =
     (let t = trim s;
          radix = (if take 2 t \<in> {''0x'', ''0X''} then 16
                   else if take 2 t \<in> {''0o'', ''0O''} then 8
                   else if take 2 t \<in> {''0b'', ''0B''} then 2 else (10 :: nat))
      in if t = [] then Some 0
         else if radix \<noteq> 10
         then (let ds = drop 2 t
               in if ds \<noteq> []
                     \<and> list_all (\<lambda>c. case hexDigitValue c of None \<Rightarrow> False | Some v \<Rightarrow> v < radix) ds
                  then Some (of_nat (digitsToNat radix ds)) else None)
         else
           (let neg = (hd t = CHR ''-'');
                u = (if hd t = CHR ''-'' \<or> hd t = CHR ''+'' then tl t else t);
                whole = takeWhile isDigit u;
                r1 = dropWhile isDigit u;
                dot = (r1 \<noteq> [] \<and> hd r1 = CHR ''.'');
                frac = (if dot then takeWhile isDigit (tl r1) else []);
                r2 = (if dot then dropWhile isDigit (tl r1) else r1);
                ex = (r2 \<noteq> [] \<and> (hd r2 = CHR ''e'' \<or> hd r2 = CHR ''E''));
                r3 = (if ex then tl r2 else []);
                eneg = (r3 \<noteq> [] \<and> hd r3 = CHR ''-'');
                eds = (if r3 \<noteq> [] \<and> (hd r3 = CHR ''-'' \<or> hd r3 = CHR ''+'') then tl r3 else r3);
                mantissa = of_nat (digitsToNat 10 (whole @ frac)) / 10 ^ length frac
            in if whole @ frac = [] \<or> (\<not> ex \<and> r2 \<noteq> []) \<or> (ex \<and> (eds = [] \<or> \<not> list_all isDigit eds))
               then None
               else Some ((if neg then - 1 else 1)
                          * (if eneg then mantissa / 10 ^ digitsToNat 10 eds
                             else mantissa * 10 ^ digitsToNat 10 eds))))"

fun showDigits :: "nat \<Rightarrow> nat \<Rightarrow> string" where
  "showDigits 0 n = []"
| "showDigits (Suc fuel) n =
     (if n < 10 then [char_of (48 + n)] else showDigits fuel (n div 10) @ [char_of (48 + n mod 10)])"

definition offline :: env where
  "offline =
     \<lparr>numberToString = (\<lambda>q. showDigits 25 (nat \<lfloor>q\<rfloor>)),
      stringToNumber = readNumber,
      hybridLoaded = True,
      fetchCrossRefWork = (\<lambda>doi. FetchFailed),
      fetchCrossRefDOISearch = (\<lambda>title. FetchFailed),
      fetchCrossRefTitle = (\<lambda>title. FetchFailed),
      fetchCrossRefAuthorYear = (\<lambda>au yr title. FetchFailed),
      queryOpenAlex = (\<lambda>title. None),
      querySemanticScholar = (\<lambda>title. None),
      getMetadataFromArxiv = (\<lambda>arxivId. None),
      getMetadataFromPubMed = (\<lambda>pmid. None),
      enrichArxiv = (\<lambda>source. source(''confidence'' \<mapsto> JNum 0)),
      fetchWebPage = (\<lambda>source. source(''confidence'' \<mapsto> JNum 0)),
      youtubeApiKey = Inr JNull,
      fetchYoutubeVideo = (\<lambda>videoId apiKey source. source(''confidence'' \<mapsto> JNum 0))\<rparr>"

text \<open>
  The scenario of the specification: the title search answers the title ``Attention Is All
  You Need'' with the identifier 10.48550/arXiv.1706.03762 at the score 85, and the
  identifier resolves.
\<close>

definition searchHit :: "string \<Rightarrow> rat \<Rightarrow> response" where
  "searchHit doi score =
     Response 200 (Some (JObj [(''message'', JObj [(''items'',
        JArr [JObj [(''DOI'', JStr doi), (''title'', JArr [JStr ''Attention Is All You Need'']),
                    (''score'', JNum score)]])])]))"

definition attentionWork :: response where
  "attentionWork =
     Response 200 (Some (JObj [(''message'', JObj
        [(''DOI'', JStr ''10.48550/arxiv.1706.03762''),
         (''title'', JArr [JStr ''Attention Is All You Need'']),
         (''author'', JArr [JObj [(''given'', JStr ''Ashish''), (''family'', JStr ''Vaswani'')]]),
         (''published'', JObj [(''date-parts'', JArr [JArr [JNum 2017, JNum 6, JNum 12]])])])]))"

definition attentionEnv :: env where
  "attentionEnv =
     offline\<lparr>fetchCrossRefDOISearch :=
               (\<lambda>title. if title = ''Attention Is All You Need''
                        then searchHit ''10.48550/arXiv.1706.03762'' 85 else FetchFailed),
             fetchCrossRefWork :=
               (\<lambda>doi. if doi = ''10.48550/arXiv.1706.03762'' then attentionWork else FetchFailed)\<rparr>"

definition attentionSource :: jsobj where
  "attentionSource = [''title'' \<mapsto> JStr ''Attention Is All You Need'', ''url'' \<mapsto> JStr []]"

text \<open>
  The same title in a record with the address of a page, and in a record whose address
  holds an identifier that does not resolve.
\<close>

definition attentionPageSource :: jsobj where
  "attentionPageSource =
     [''title'' \<mapsto> JStr ''Attention Is All You Need'',
      ''url'' \<mapsto> JStr ''https://example.org/reading/attention'']"

definition attentionLinkSource :: jsobj where
  "attentionLinkSource =
     [''title'' \<mapsto> JStr ''Attention Is All You Need'',
      ''url'' \<mapsto> JStr ''https://doi.org/10.1000/182'']"




text \<open>The record of the specification's example of the identifier extractor.\<close>

definition doiFilenameSource :: jsobj where
  "doiFilenameSource = [''title'' \<mapsto> JStr ''Smith et al - 2024 - 10.1038/s41586-024-01234-5.pdf'']"

text \<open>
  A preprint whose address names an arXiv identifier, in an environment where the arXiv
  client answers with a candidate of confidence 50.
\<close>

definition preprintEnv :: env where
  "preprintEnv =
     offline\<lparr>getMetadataFromArxiv :=
               (\<lambda>arxivId. Some [''title'' \<mapsto> JStr ''A preprint'', ''confidence'' \<mapsto> JNum 50]),
             enrichArxiv :=
               (\<lambda>source. source(''confidence'' \<mapsto> JNum (8 / 10), ''enrichmentType'' \<mapsto> JStr ''arxiv''))\<rparr>"

definition preprintSource :: jsobj where
  "preprintSource =
     [''title'' \<mapsto> JStr ''A preprint'', ''url'' \<mapsto> JStr ''https://arxiv.org/abs/1706.03762'']"

text \<open>
  A batch of four records: one that resolves by identifier, a video whose enrichment
  throws (the storage of the key is not available), a page that yields an author only, and
  a note that nothing resolves. The callback \<open>quiet\<close> returns on every call.
\<close>

definition batchEnv :: env where
  "batchEnv =
     attentionEnv\<lparr>youtubeApiKey := Inl (JsError ''storage unavailable''),
                  fetchWebPage :=
                    (\<lambda>source. source(''authors'' \<mapsto> JArr [JStr ''Staff''],
                                     ''confidence'' \<mapsto> JNum (7 / 10),
                                     ''enrichmentType'' \<mapsto> JStr ''web''))\<rparr>"

definition videoSource :: jsobj where
  "videoSource =
     [''title'' \<mapsto> JStr ''A talk on YouTube'', ''url'' \<mapsto> JStr ''https://youtu.be/dQw4w9WgXcQ'']"

definition pageSource :: jsobj where
  "pageSource =
     [''title'' \<mapsto> JStr ''Field notes from the lab'', ''url'' \<mapsto> JStr ''https://example.org/notes'']"

definition noteSource :: jsobj where
  "noteSource = [''title'' \<mapsto> JStr ''Notes'']"

definition batch :: "jsobj list" where
  "batch = [attentionSource, videoSource, pageSource, noteSource]"

definition quiet :: progressCallback where
  "quiet = (\<lambda>p. None)"

section \<open>The similarity scorer\<close>

lemma jaccard_lists:
  "rat_of_nat (length (remdups (filter (\<lambda>w. w \<in> set (remdups ys)) (remdups xs))))
     / rat_of_nat (length (remdups (remdups xs @ remdups ys)))
   = jaccard_spec (set xs) (set ys)"
proof -
  have "set (filter (\<lambda>w. w \<in> set (remdups ys)) (remdups xs)) = set xs \<inter> set ys"
    by auto
  moreover have "set (remdups xs @ remdups ys) = set xs \<union> set ys"
    by auto
  ultimately show ?thesis
    unfolding jaccard_spec_def length_remdups_card_conv by simp
qed

lemma jaccard_spec_commute: "jaccard_spec A B = jaccard_spec B A"
  by (simp add: jaccard_spec_def Int_commute Un_commute)

lemma jaccard_spec_range: "0 \<le> jaccard_spec A B \<and> jaccard_spec A B \<le> 1"
proof (cases "finite (A \<union> B)")
  case True
  then have "card (A \<inter> B) \<le> card (A \<union> B)"
    by (intro card_mono) auto
  then show ?thesis
    unfolding jaccard_spec_def
    by (cases "card (A \<union> B) = 0") (simp_all add: divide_le_eq_1)
next
  case False
  then show ?thesis by (simp add: jaccard_spec_def)
qed

text \<open>The scorer with the sizes of its lists read as cardinalities of sets.\<close>

lemma calculateTitleSimilarity_alt:
  "calculateTitleSimilarity a b =
     (let c1 = trim (stripNonAlnum (toLowerCase a)); c2 = trim (stripNonAlnum (toLowerCase b))
      in if c1 = c2 then 1
         else min 1 (jaccard_spec (set (splitWs [] c1)) (set (splitWs [] c2))
                     + (if str_includes c1 c2 \<or> str_includes c2 c1 then 2 / 10 else 0)))"
  unfolding calculateTitleSimilarity_def Let_def jaccard_lists ..

text \<open>
  Claim C4. For all strings \<open>a\<close> and \<open>b\<close>: the similarity of \<open>a\<close> with itself is 1, the
  similarity of \<open>a\<close> and \<open>b\<close> is the similarity of \<open>b\<close> and \<open>a\<close>, and the similarity
  lies between 0 and 1.
\<close>

theorem calculateTitleSimilarity_reflexive_symmetric_bounded:
  "calculateTitleSimilarity a a = 1
   \<and> calculateTitleSimilarity a b = calculateTitleSimilarity b a
   \<and> 0 \<le> calculateTitleSimilarity a b
   \<and> calculateTitleSimilarity a b \<le> 1"
proof -
  have same: "calculateTitleSimilarity a a = 1"
    by (simp add: calculateTitleSimilarity_def)
  have swap: "calculateTitleSimilarity a b = calculateTitleSimilarity b a"
    unfolding calculateTitleSimilarity_alt Let_def
    by (auto simp: jaccard_spec_commute)
  have lower: "0 \<le> calculateTitleSimilarity a b"
    unfolding calculateTitleSimilarity_alt Let_def
    using jaccard_spec_range by (auto simp: add_nonneg_nonneg)
  have upper: "calculateTitleSimilarity a b \<le> 1"
    unfolding calculateTitleSimilarity_alt Let_def by auto
  from same swap lower upper show ?thesis by blast
qed

text \<open>
  An instance: two titles that share two of four words, in both orders of the arguments.
\<close>

theorem calculateTitleSimilarity_example:
  "calculateTitleSimilarity ''Deep Learning for NLP'' ''deep learning for nlp!!!'' = 1
   \<and> calculateTitleSimilarity ''graph neural networks'' ''neural networks survey''
       = calculateTitleSimilarity ''neural networks survey'' ''graph neural networks''
   \<and> calculateTitleSimilarity ''graph neural networks'' ''neural networks survey'' = 1 / 2"
proof -
  have "calculateTitleSimilarity ''Deep Learning for NLP'' ''deep learning for nlp!!!'' = 1"
    by code_simp
  moreover have "calculateTitleSimilarity ''graph neural networks'' ''neural networks survey'' = 1 / 2"
    by code_simp
  moreover note calculateTitleSimilarity_reflexive_symmetric_bounded
    [of "''graph neural networks''" "''neural networks survey''"]
  ultimately show ?thesis by simp
qed

lemma str_includes_sublist: "str_includes s t = sublist t s"
  by (induction s) (auto simp: sublist_Cons_right)

lemma splitEvery_dropWhile:
  "filter (\<lambda>w. w \<noteq> []) (splitEvery [] (dropWhile isWhiteSpace cs))
     = filter (\<lambda>w. w \<noteq> []) (splitEvery [] cs)"
  by (induction cs) auto

lemma splitWs_splitEvery:
  "filter (\<lambda>w. w \<noteq> []) (splitWs cur s) = filter (\<lambda>w. w \<noteq> []) (splitEvery cur s)"
  by (induction cur s rule: splitWs.induct) (auto simp: splitEvery_dropWhile)

lemma tokens_spec_splitWs: "tokens_spec s = set (splitWs [] s) - {[]}"
proof -
  have "tokens_spec s = set (filter (\<lambda>w. w \<noteq> []) (splitWs [] s))"
    by (simp add: tokens_spec_def splitWs_splitEvery)
  then show ?thesis by auto
qed

lemma last_dropWhile_keep:
  "dropWhile P xs \<noteq> [] \<Longrightarrow> last (dropWhile P xs) = last xs"
  by (induction xs) (auto split: if_splits)

lemma dropWhile_last_ws:
  "dropWhile isWhiteSpace cs = [] \<Longrightarrow> isWhiteSpace c \<Longrightarrow> isWhiteSpace (last (c # cs))"
  by (induction cs arbitrary: c) (auto split: if_splits)

text \<open>
  Where \<^verbatim>\<open>split\<close> yields an empty piece: at the start, when nothing was read before a
  separator or the end, or at the end, after a trailing separator.
\<close>

lemma splitWs_empty_token:
  "[] \<in> set (splitWs cur s) \<Longrightarrow>
     (cur = [] \<and> (s = [] \<or> isWhiteSpace (hd s))) \<or> (s \<noteq> [] \<and> isWhiteSpace (last s))"
proof (induction cur s rule: splitWs.induct)
  case (1 cur)
  then show ?case by simp
next
  case (2 cur c cs)
  show ?case
  proof (cases "isWhiteSpace c")
    case True
    show ?thesis
    proof (cases "cur = []")
      case True
      with \<open>isWhiteSpace c\<close> show ?thesis by simp
    next
      case False
      with True "2.prems" have mem: "[] \<in> set (splitWs [] (dropWhile isWhiteSpace cs))"
        by simp
      from "2.IH"(1)[OF True mem] have
        "dropWhile isWhiteSpace cs = [] \<or> isWhiteSpace (hd (dropWhile isWhiteSpace cs))
          \<or> (dropWhile isWhiteSpace cs \<noteq> [] \<and> isWhiteSpace (last (dropWhile isWhiteSpace cs)))"
        by blast
      moreover have "dropWhile isWhiteSpace cs \<noteq> [] \<Longrightarrow> \<not> isWhiteSpace (hd (dropWhile isWhiteSpace cs))"
        by (rule hd_dropWhile)
      ultimately consider (all) "dropWhile isWhiteSpace cs = []"
        | (tail) "dropWhile isWhiteSpace cs \<noteq> []" "isWhiteSpace (last (dropWhile isWhiteSpace cs))"
        by blast
      then show ?thesis
      proof cases
        case all
        then show ?thesis using dropWhile_last_ws[OF all True] by simp
      next
        case tail
        then have "cs \<noteq> []" by auto
        moreover have "last (dropWhile isWhiteSpace cs) = last cs"
          using tail(1) by (rule last_dropWhile_keep)
        ultimately show ?thesis using tail(2) by simp
      qed
    qed
  next
    case False
    with "2.prems" have "[] \<in> set (splitWs (c # cur) cs)" by simp
    from "2.IH"(2)[OF False this] show ?thesis by auto
  qed
qed

lemma trim_ends:
  assumes "trim s \<noteq> []"
  shows "\<not> isWhiteSpace (hd (trim s))" and "\<not> isWhiteSpace (last (trim s))"
proof -
  let ?t = "dropWhile isWhiteSpace s"
  let ?u = "dropWhile isWhiteSpace (rev ?t)"
  from assms have u: "?u \<noteq> []" by (simp add: trim_def)
  have t: "?t \<noteq> []"
  proof
    assume "?t = []"
    then have "?u = []" by (simp only: rev.simps dropWhile.simps)
    with u show False by contradiction
  qed
  have "last (trim s) = hd ?u" using u by (simp add: trim_def last_rev)
  then show "\<not> isWhiteSpace (last (trim s))" using hd_dropWhile[OF u] by simp
  have "hd (trim s) = last ?u" using u by (simp add: trim_def hd_rev)
  also have "\<dots> = last (rev ?t)" using u by (rule last_dropWhile_keep)
  also have "\<dots> = hd ?t" using t by (simp add: last_rev)
  finally show "\<not> isWhiteSpace (hd (trim s))" using hd_dropWhile[OF t] by simp
qed

lemma trim_tokens:
  assumes "trim s \<noteq> []"
  shows "set (splitWs [] (trim s)) = tokens_spec (trim s)"
proof -
  have "[] \<notin> set (splitWs [] (trim s))"
    using splitWs_empty_token[of "[]" "trim s"] trim_ends[OF assms] assms by blast
  then show ?thesis by (simp add: tokens_spec_splitWs)
qed

lemma jaccard_spec_empty_left:
  "[] \<notin> B \<Longrightarrow> jaccard_spec {[]} B = jaccard_spec {} B"
  by (simp add: jaccard_spec_def)

text \<open>
  On trimmed strings that differ, the pieces of \<^verbatim>\<open>split\<close> and the tokens give the same
  Jaccard similarity: the one empty piece of the empty string is in no other set of pieces.
\<close>

lemma jaccard_trimmed:
  assumes "trim s \<noteq> trim t"
  shows "jaccard_spec (set (splitWs [] (trim s))) (set (splitWs [] (trim t)))
           = jaccard_spec (tokens_spec (trim s)) (tokens_spec (trim t))"
proof -
  have nil: "set (splitWs [] []) = {[]}" "tokens_spec [] = {}"
    by (simp_all add: tokens_spec_def)
  have notin: "[] \<notin> tokens_spec u" for u
    by (simp add: tokens_spec_def)
  show ?thesis
  proof (cases "trim s = []")
    case True
    with assms have "trim t \<noteq> []" by simp
    with True show ?thesis
      by (simp add: trim_tokens nil jaccard_spec_empty_left notin)
  next
    case False
    show ?thesis
    proof (cases "trim t = []")
      case True
      with False show ?thesis
        using jaccard_spec_empty_left[OF notin, of "trim s"]
        by (simp add: trim_tokens nil jaccard_spec_commute)
    next
      case False
      with \<open>trim s \<noteq> []\<close> show ?thesis by (simp add: trim_tokens)
    qed
  qed
qed

text \<open>
  Claim C5, as the code has it. For all strings \<open>a\<close> and \<open>b\<close> the scorer computes the
  specification's formula over the strings normalized by lowercasing, stripping the
  characters outside \<open>a-z\<close>, \<open>0-9\<close> and white space, and trimming, without collapsing
  white space: 1 when the normalized strings are equal, else the Jaccard similarity of
  their sets of tokens plus 0.2 when one normalized string is a substring of the other,
  clamped to 1.
\<close>

theorem calculateTitleSimilarity_is_spec_without_collapse:
  "calculateTitleSimilarity a b = titleSimilarity_spec normalize_plain a b"
  unfolding calculateTitleSimilarity_alt titleSimilarity_spec_def normalize_plain_def Let_def
  by (simp add: jaccard_trimmed str_includes_sublist)

text \<open>
  The claim as stated, with the collapse of white space, fails: between ``x  y z'', with two
  spaces, and ``x y'' the specification's formula finds the substring ``x y'' in ``x y z'' and
  gives 2/3 + 1/5, the code finds no substring and gives 2/3.
\<close>

theorem calculateTitleSimilarity_collapse_counterexample:
  "calculateTitleSimilarity ''x  y z'' ''x y'' = 2 / 3
   \<and> titleSimilarity_spec normalize_collapsing ''x  y z'' ''x y'' = 13 / 15"
  by code_simp

theorem calculateTitleSimilarity_is_spec_example:
  "titleSimilarity_spec normalize_plain ''x  y z'' ''x y'' = 2 / 3"
proof -
  have "calculateTitleSimilarity ''x  y z'' ''x y'' = 2 / 3"
    by code_simp
  then show ?thesis
    using calculateTitleSimilarity_is_spec_without_collapse [of "''x  y z''" "''x y''"] by simp
qed

section \<open>The identifier extractor\<close>

text \<open>
  Claim C6. The specification has the identifier extractor return the DOI
  10.1038/s41586-024-01234-5 for the title ``Smith et al - 2024 - 10.1038/s41586-024-01234-5.pdf''.
  The code returns the text with the file extension: the pattern takes every character up
  to the next white space, and \<^verbatim>\<open>cleanDOI\<close> removes a resolver prefix, a leading
  \<^verbatim>\<open>doi:\<close> and surrounding white space (second and third line), and no trailing
  punctuation (fourth line).
\<close>

theorem extractDOI_keeps_file_extension:
  "extractDOI doiFilenameSource = Inr (Some ''10.1038/s41586-024-01234-5.pdf'')
   \<and> cleanDOI ''https://dx.doi.org/10.1038/s41586-024-01234-5  '' = ''10.1038/s41586-024-01234-5''
   \<and> cleanDOI ''doi: 10.1038/s41586-024-01234-5.pdf'' = ''10.1038/s41586-024-01234-5.pdf''
   \<and> cleanDOI ''10.1038/s41586-024-01234-5).'' = ''10.1038/s41586-024-01234-5).''"
  by code_simp

section \<open>The filename parser\<close>

text \<open>
  The matcher on a run of characters of one class: a greedy repetition reads the whole run
  when the rest of the pattern matches behind it, and a lazy repetition passes every
  position at which the rest of the pattern fails. All four patterns of the parser are
  anchored at the start of the title.
\<close>

lemma star_cls_run:
  assumes "list_all f xs" and "case rest of [] \<Rightarrow> True | y # ys \<Rightarrow> \<not> f y"
      and "k (rev xs @ b, rest) c \<noteq> None"
  shows "rx_match ci (Star (Cls f)) (b, xs @ rest) c k = k (rev xs @ b, rest) c"
  using assms
proof (induction xs arbitrary: b)
  case Nil
  then show ?case by (cases rest) auto
next
  case (Cons x xs)
  from Cons.prems have "rx_match ci (Star (Cls f)) (x # b, xs @ rest) c k = k (rev (x # xs) @ b, rest) c"
    using Cons.IH[of "x # b"] by auto
  with Cons.prems show ?case by auto
qed

lemma star_cls_Cons:
  "rx_match ci (Star (Cls f)) (b, y # ys) c k
   = (if f y then (case rx_match ci (Star (Cls f)) (y # b, ys) c k of
                     Some m \<Rightarrow> Some m | None \<Rightarrow> k (b, y # ys) c)
      else k (b, y # ys) c)"
  by simp

lemma star_cls_total:
  assumes "\<And>p. k p c \<noteq> None"
  shows "rx_match ci (Star (Cls f)) (b, s) c k = k (rev (takeWhile f s) @ b, dropWhile f s) c"
proof (induction s arbitrary: b)
  case Nil
  then show ?case by simp
next
  case (Cons y ys)
  show ?case
    using Cons[of "y # b"] assms[of "(rev (takeWhile f ys) @ y # b, dropWhile f ys)"]
    by (auto split: option.splits)
qed

lemma starlazy_cls_skip:
  assumes "list_all f xs" and "list_all h xs"
      and "\<And>b' y ys. h y \<Longrightarrow> k (b', y # ys) c = None"
  shows "rx_match ci (StarLazy (Cls f)) (b, xs @ rest) c k
         = rx_match ci (StarLazy (Cls f)) (rev xs @ b, rest) c k"
  using assms(1,2)
proof (induction xs arbitrary: b)
  case Nil
  then show ?case by simp
next
  case (Cons x xs)
  then show ?case
    using assms(3)[of x b "xs @ rest"] Cons.IH[of "x # b"] by simp
qed

lemma starlazy_cls_Cons:
  "rx_match ci (StarLazy (Cls f)) (b, y # ys) c k
   = (case k (b, y # ys) c of
        Some m \<Rightarrow> Some m
      | None \<Rightarrow> if f y then rx_match ci (StarLazy (Cls f)) (y # b, ys) c k else None)"
  by (simp split: option.splits)

lemma rx_exec_from_Bol:
  "bef \<noteq> [] \<Longrightarrow> rx_exec_from ci (Seq Bol r) bef s = None"
  by (induction s arbitrary: bef) (simp_all add: rx_at_def)

lemma rx_exec_Bol: "rx_exec ci (Seq Bol r) s = rx_at ci (Seq Bol r) [] s"
  by (cases s) (simp_all add: rx_exec_def rx_exec_from_Bol split: option.splits)

lemma fourDigitsE:
  assumes "fourDigits y"
  obtains a b c d where "y = [a, b, c, d]" "isDigit a" "isDigit b" "isDigit c" "isDigit d"
proof -
  from assms have len: "length y = 4" and all: "list_all isDigit y"
    by (simp_all add: fourDigits_def)
  from len obtain a b c d where "y = [a, b, c, d]"
    by (auto simp: length_Suc_conv numeral_eq_Suc)
  with all that show ?thesis by simp
qed

lemma capitalizedE:
  assumes "capitalized w"
  obtains u l ls where "w = u # l # ls" "isUpperAZ u" "isLowerAZ l" "list_all isLowerAZ ls"
  using assms by (cases w; cases "tl w") (auto simp: capitalized_def)

lemma char_classes:
  "isDigit c \<Longrightarrow> \<not> isWhiteSpace c" "isDigit c \<Longrightarrow> \<not> isUpperAZ c"
  "isUpperAZ c \<Longrightarrow> \<not> isWhiteSpace c" "isLowerAZ c \<Longrightarrow> \<not> isWhiteSpace c"
  "\<not> isLowerAZ CHR '' ''" "\<not> isLowerAZ CHR ''-''" "isWhiteSpace CHR '' ''" "\<not> isWhiteSpace CHR ''-''"
  "\<not> isWhiteSpace CHR ''(''" "\<not> isWhiteSpace CHR ''e''"
  by (auto simp: isDigit_def isWhiteSpace_def isUpperAZ_def isLowerAZ_def)

lemmas pattern_defs =
  Seqs_def Plus_def PlusLazy_def Opt_def Digits4_def Rep_def dash_def Upper_def Lower_def Space_def
  Digit_def Lit_def

lemma pattern3_matches:
  assumes "capitalized surname" and "fourDigits yr"
  shows "\<exists>m. rx_exec False pattern3 (surname @ '' - '' @ yr @ rest) = Some m
             \<and> group m 1 = surname \<and> group m 2 = yr"
proof -
  from assms(1) obtain u l ls where s: "surname = u # l # ls" "isUpperAZ u" "isLowerAZ l" "list_all isLowerAZ ls"
    by (rule capitalizedE)
  from assms(2) obtain a b c d where y: "yr = [a, b, c, d]" "isDigit a" "isDigit b" "isDigit c" "isDigit d"
    by (rule fourDigitsE)
  show ?thesis
    unfolding s(1) y(1) pattern3_def pattern_defs
    using s(2-4) y(2-5)
    by (simp add: rx_exec_Bol rx_at_def group_def chr_matches_def star_cls_run star_cls_Cons char_classes
          numeral_eq_Suc
        del: rx_match.simps(6))
qed

lemma pattern3_matches_hyphenated:
  assumes "capitalized first" and "capitalized second" and "fourDigits yr"
  shows "\<exists>m. rx_exec False pattern3 (first @ ''-'' @ second @ '' - '' @ yr @ rest) = Some m
             \<and> group m 1 = first @ ''-'' @ second \<and> group m 2 = yr"
proof -
  from assms(1) obtain u l ls where s: "first = u # l # ls" "isUpperAZ u" "isLowerAZ l" "list_all isLowerAZ ls"
    by (rule capitalizedE)
  from assms(2) obtain u' l' ls' where t: "second = u' # l' # ls'" "isUpperAZ u'" "isLowerAZ l'" "list_all isLowerAZ ls'"
    by (rule capitalizedE)
  from assms(3) obtain a b c d where y: "yr = [a, b, c, d]" "isDigit a" "isDigit b" "isDigit c" "isDigit d"
    by (rule fourDigitsE)
  show ?thesis
    unfolding s(1) t(1) y(1) pattern3_def pattern_defs
    using s(2-4) t(2-4) y(2-5)
    by (simp add: rx_exec_Bol rx_at_def group_def chr_matches_def star_cls_run star_cls_Cons char_classes
          numeral_eq_Suc
        del: rx_match.simps(6))
qed

lemma pattern4_matches:
  assumes "capitalized w" and "fourDigits yr"
  shows "\<exists>m. rx_exec False pattern4 (w @ '' '' @ yr @ '' '' @ rest) = Some m
             \<and> group m 1 = w \<and> group m 2 = yr"
proof -
  from assms(1) obtain u l ls where s: "w = u # l # ls" "isUpperAZ u" "isLowerAZ l" "list_all isLowerAZ ls"
    by (rule capitalizedE)
  from assms(2) obtain a b c d where y: "yr = [a, b, c, d]" "isDigit a" "isDigit b" "isDigit c" "isDigit d"
    by (rule fourDigitsE)
  show ?thesis
    unfolding s(1) y(1) pattern4_def pattern_defs
    using s(2-4) y(2-5)
    by (simp add: rx_exec_Bol rx_at_def group_def chr_matches_def star_cls_run star_cls_Cons char_classes
          star_cls_total numeral_eq_Suc
        del: rx_match.simps(6))
qed

lemma pattern4_matches_two_words:
  assumes "capitalized first" and "capitalized second" and "fourDigits yr"
  shows "\<exists>m. rx_exec False pattern4 (first @ '' '' @ second @ '' '' @ yr @ '' '' @ rest) = Some m
             \<and> group m 1 = first @ '' '' @ second \<and> group m 2 = yr"
proof -
  from assms(1) obtain u l ls where s: "first = u # l # ls" "isUpperAZ u" "isLowerAZ l" "list_all isLowerAZ ls"
    by (rule capitalizedE)
  from assms(2) obtain u' l' ls' where t: "second = u' # l' # ls'" "isUpperAZ u'" "isLowerAZ l'" "list_all isLowerAZ ls'"
    by (rule capitalizedE)
  from assms(3) obtain a b c d where y: "yr = [a, b, c, d]" "isDigit a" "isDigit b" "isDigit c" "isDigit d"
    by (rule fourDigitsE)
  show ?thesis
    unfolding s(1) t(1) y(1) pattern4_def pattern_defs
    using s(2-4) t(2-4) y(2-5)
    by (simp add: rx_exec_Bol rx_at_def group_def chr_matches_def star_cls_run star_cls_Cons char_classes
          star_cls_total numeral_eq_Suc
        del: rx_match.simps(6))
qed


lemma authorNameE:
  assumes "authorName a"
  obtains x xs where "a = x # xs" "x \<noteq> CHR ''-''" "CHR ''('' \<noteq> x" "\<not> isWhiteSpace x"
    "list_all (\<lambda>c. c \<noteq> CHR ''-'') xs" "list_all (\<lambda>c. c \<noteq> CHR ''('') xs"
    "list_all (\<lambda>c. \<not> isWhiteSpace c) xs"
    "list_all (\<lambda>c. \<not> isWhiteSpace c \<and> CHR ''('' \<noteq> c) xs"
  using assms by (cases a) (auto simp: authorName_def list_all_iff)

lemma asciiLower_facts:
  "asciiLower CHR ''.'' = CHR ''.''" "asciiLower CHR '' '' = CHR '' ''" "asciiLower CHR ''-'' = CHR ''-''"
  "asciiLower CHR ''e'' = CHR ''e''" "asciiLower CHR ''t'' = CHR ''t''"
  "asciiLower CHR ''a'' = CHR ''a''" "asciiLower CHR ''l'' = CHR ''l''"
  "isDigit c \<Longrightarrow> asciiLower c = c"
  by (simp_all add: asciiLower_def isUpperAZ_def isDigit_def)

lemma pattern1_matches:
  assumes "authorName a" and "fourDigits yr"
  shows "\<exists>m. rx_exec True pattern1 (a @ '' et al - '' @ yr @ rest) = Some m
             \<and> group m 1 = a \<and> group m 2 = yr"
proof -
  from assms(1) obtain x xs where s: "a = x # xs" "x \<noteq> CHR ''-''"
      "list_all (\<lambda>c. c \<noteq> CHR ''-'') xs" "list_all (\<lambda>c. \<not> isWhiteSpace c) xs"
    by (rule authorNameE)
  from assms(2) obtain a' b c d where y: "yr = [a', b, c, d]" "isDigit a'" "isDigit b" "isDigit c" "isDigit d"
    by (rule fourDigitsE)
  show ?thesis
    unfolding s(1) y(1) pattern1_def pattern_defs
    using s(2-4) y(2-5)
    by (simp add: rx_exec_Bol rx_at_def group_def chr_matches_def star_cls_run star_cls_Cons char_classes
          starlazy_cls_skip[where h = "\<lambda>c. \<not> isWhiteSpace c"] starlazy_cls_Cons asciiLower_facts
          numeral_eq_Suc
        del: rx_match.simps(6,7))
qed

lemma pattern2_matches:
  assumes "authorName a" and "fourDigits yr"
  shows "\<exists>m. rx_exec False pattern2 (a @ '' ('' @ yr @ '')'' @ rest) = Some m
             \<and> group m 1 = a \<and> group m 2 = yr"
proof -
  from assms(1) obtain x xs where s: "a = x # xs" "CHR ''('' \<noteq> x"
      "list_all (\<lambda>c. c \<noteq> CHR ''('') xs" "list_all (\<lambda>c. \<not> isWhiteSpace c \<and> CHR ''('' \<noteq> c) xs"
    by (rule authorNameE)
  from assms(2) obtain a' b c d where y: "yr = [a', b, c, d]" "isDigit a'" "isDigit b" "isDigit c" "isDigit d"
    by (rule fourDigitsE)
  show ?thesis
    unfolding s(1) y(1) pattern2_def pattern_defs
    using s(2-4) y(2-5)
    by (simp add: rx_exec_Bol rx_at_def group_def chr_matches_def star_cls_run star_cls_Cons char_classes
          starlazy_cls_skip[where h = "\<lambda>c. \<not> isWhiteSpace c \<and> CHR ''('' \<noteq> c"] starlazy_cls_Cons
          numeral_eq_Suc
        del: rx_match.simps(6,7))
qed

lemma trim_unchanged:
  assumes "s \<noteq> []" and "\<not> isWhiteSpace (hd s)" and "\<not> isWhiteSpace (last s)"
  shows "trim s = s"
proof -
  from assms(1,2) have "dropWhile isWhiteSpace s = s"
    by (cases s) auto
  moreover from assms(1,3) have "dropWhile isWhiteSpace (rev s) = rev s"
    by (cases "rev s") (auto simp: last_rev[symmetric] simp del: last_rev)
  ultimately show ?thesis
    by (simp add: trim_def)
qed

lemma coauthorSuffix_no_space:
  "list_all (\<lambda>c. \<not> isWhiteSpace c) s \<Longrightarrow> rx_exec_from False coauthorSuffix bef s = None"
  by (induction s arbitrary: bef) (simp_all add: coauthorSuffix_def pattern_defs rx_at_def)

lemma capitalized_ends:
  assumes "capitalized w"
  shows "w \<noteq> []" and "\<not> isWhiteSpace (hd w)" and "\<not> isWhiteSpace (last w)"
proof -
  from assms obtain u l ls where w: "w = u # l # ls" "isUpperAZ u" "isLowerAZ l" "list_all isLowerAZ ls"
    by (rule capitalizedE)
  show "w \<noteq> []" "\<not> isWhiteSpace (hd w)"
    using w by (simp_all add: char_classes)
  have "last w \<in> set (l # ls)"
    unfolding w(1) by (metis last.simps last_in_set list.distinct(1))
  then have "isLowerAZ (last w)"
    using w(3,4) by (auto simp: list_all_iff)
  then show "\<not> isWhiteSpace (last w)"
    by (rule char_classes)
qed

lemma authorName_unchanged:
  assumes "authorName a"
  shows "trim a = a" and "rx_replace False coauthorSuffix [] a = a"
proof -
  from assms have all: "list_all (\<lambda>c. \<not> isWhiteSpace c) a" and ne: "a \<noteq> []"
    by (auto simp: authorName_def list_all_iff)
  then have "\<not> isWhiteSpace (hd a)" "\<not> isWhiteSpace (last a)"
    by (auto simp: list_all_iff)
  with ne show "trim a = a"
    by (rule trim_unchanged)
  show "rx_replace False coauthorSuffix [] a = a"
    using coauthorSuffix_no_space[OF all] by (simp add: rx_replace_def rx_exec_def)
qed

lemma trim_compound:
  assumes "capitalized first" and "capitalized second"
  shows "trim (first @ sep @ second) = first @ sep @ second"
  using capitalized_ends[OF assms(1)] capitalized_ends[OF assms(2)]
  by (intro trim_unchanged) auto

text \<open>What the parser returns on each of the four shapes, when no earlier pattern matches.\<close>

lemma parse_shape1:
  assumes "authorName a" and "fourDigits yr"
  shows "parseFilenameMetadata (a @ '' et al - '' @ yr @ rest) = \<lparr>author = Some a, year = parseInt yr\<rparr>"
  using pattern1_matches[OF assms, of rest] authorName_unchanged(1)[OF assms(1)]
  by (auto simp: parseFilenameMetadata_def)

lemma parse_shape2:
  assumes "authorName a" and "fourDigits yr"
      and "rx_exec True pattern1 (a @ '' ('' @ yr @ '')'' @ rest) = None"
  shows "parseFilenameMetadata (a @ '' ('' @ yr @ '')'' @ rest) = \<lparr>author = Some a, year = parseInt yr\<rparr>"
  using pattern2_matches[OF assms(1,2), of rest] authorName_unchanged[OF assms(1)] assms(3)
  by (auto simp: parseFilenameMetadata_def)

lemma parse_shape3:
  assumes "capitalized w" and "fourDigits yr"
      and "rx_exec True pattern1 (w @ '' - '' @ yr @ rest) = None"
      and "rx_exec False pattern2 (w @ '' - '' @ yr @ rest) = None"
  shows "parseFilenameMetadata (w @ '' - '' @ yr @ rest) = \<lparr>author = Some w, year = parseInt yr\<rparr>"
  using pattern3_matches[OF assms(1,2), of rest] capitalized_ends[OF assms(1)] assms(3,4)
  by (auto simp: parseFilenameMetadata_def trim_unchanged)

lemma parse_shape3_hyphenated:
  assumes "capitalized first" and "capitalized second" and "fourDigits yr"
      and "rx_exec True pattern1 (first @ ''-'' @ second @ '' - '' @ yr @ rest) = None"
      and "rx_exec False pattern2 (first @ ''-'' @ second @ '' - '' @ yr @ rest) = None"
  shows "parseFilenameMetadata (first @ ''-'' @ second @ '' - '' @ yr @ rest)
         = \<lparr>author = Some (first @ ''-'' @ second), year = parseInt yr\<rparr>"
  using pattern3_matches_hyphenated[OF assms(1-3), of rest] trim_compound[OF assms(1,2), of "''-''"]
    assms(4,5)
  by (auto simp: parseFilenameMetadata_def)

lemma parse_shape4:
  assumes "capitalized w" and "fourDigits yr"
      and "rx_exec True pattern1 (w @ '' '' @ yr @ '' '' @ rest) = None"
      and "rx_exec False pattern2 (w @ '' '' @ yr @ '' '' @ rest) = None"
      and "rx_exec False pattern3 (w @ '' '' @ yr @ '' '' @ rest) = None"
  shows "parseFilenameMetadata (w @ '' '' @ yr @ '' '' @ rest) = \<lparr>author = Some w, year = parseInt yr\<rparr>"
  using pattern4_matches[OF assms(1,2), of rest] capitalized_ends[OF assms(1)] assms(3-5)
  by (auto simp: parseFilenameMetadata_def trim_unchanged)

lemma parse_shape4_two_words:
  assumes "capitalized first" and "capitalized second" and "fourDigits yr"
      and "rx_exec True pattern1 (first @ '' '' @ second @ '' '' @ yr @ '' '' @ rest) = None"
      and "rx_exec False pattern2 (first @ '' '' @ second @ '' '' @ yr @ '' '' @ rest) = None"
      and "rx_exec False pattern3 (first @ '' '' @ second @ '' '' @ yr @ '' '' @ rest) = None"
  shows "parseFilenameMetadata (first @ '' '' @ second @ '' '' @ yr @ '' '' @ rest)
         = \<lparr>author = Some (first @ '' '' @ second), year = parseInt yr\<rparr>"
  using pattern4_matches_two_words[OF assms(1-3), of rest] trim_compound[OF assms(1,2), of "'' ''"]
    assms(4-6)
  by (auto simp: parseFilenameMetadata_def)

text \<open>
  Claim C9. The parser tries the patterns ``Author et al - YYYY'', ``Author (YYYY)'',
  ``Author - YYYY'' and ``Author YYYY'' in this order and the first one that matches
  decides the result: a pattern is read only when every pattern before it fails, and
  nothing is parsed when all four fail. ``Jones & Brown (2023) - Climate Models.pdf''
  parses to the author Jones and the year 2023, ``Smith et al - 2024 - Title.pdf'' to the
  author Smith and the year 2024.

  The statement has three parts. The first is the result on single titles: the two titles
  of the specification; two titles that only the third pattern matches and two that only
  the fourth matches; four titles that two patterns match, where the earlier pattern
  decides (1 before 2, 1 before 4, 2 before 3 and 2 before 4); and two titles that no
  pattern matches, a surname in lower case and a year that no white space follows. The
  second part is the result on every title of each of the four shapes, whatever follows
  the year: a title of the first shape is parsed as such, and a title of a later shape is
  parsed as such when no earlier pattern matches it. The third part is the order of the
  four tests for every title. (Titles are strings over U+0000..U+00FF: of the three dashes
  that the patterns 1 and 3 admit, the hyphen.)
\<close>

theorem parseFilenameMetadata_first_match_wins:
  "parseFilenameMetadata ''Jones & Brown (2023) - Climate Models.pdf''
     = \<lparr>author = Some ''Jones'', year = Some 2023\<rparr>
   \<and> parseFilenameMetadata ''Smith et al - 2024 - Title.pdf''
     = \<lparr>author = Some ''Smith'', year = Some 2024\<rparr>
   \<and> parseFilenameMetadata ''Smith - 2024 - Title.pdf''
     = \<lparr>author = Some ''Smith'', year = Some 2024\<rparr>
   \<and> parseFilenameMetadata ''Smith-Jones - 2024 - Title.pdf''
     = \<lparr>author = Some ''Smith-Jones'', year = Some 2024\<rparr>
   \<and> parseFilenameMetadata ''Smith 2024 Title.pdf''
     = \<lparr>author = Some ''Smith'', year = Some 2024\<rparr>
   \<and> parseFilenameMetadata ''Van Gogh 1889 Letters.pdf''
     = \<lparr>author = Some ''Van Gogh'', year = Some 1889\<rparr>
   \<and> parseFilenameMetadata ''Smith et al - 2024 (2023)''
     = \<lparr>author = Some ''Smith'', year = Some 2024\<rparr>
   \<and> parseFilenameMetadata ''Smith 2023 et al - 2024 notes''
     = \<lparr>author = Some ''Smith 2023'', year = Some 2024\<rparr>
   \<and> parseFilenameMetadata ''Smith - 2024 (2023)''
     = \<lparr>author = Some ''Smith - 2024'', year = Some 2023\<rparr>
   \<and> parseFilenameMetadata ''Smith 2024 (2023)''
     = \<lparr>author = Some ''Smith 2024'', year = Some 2023\<rparr>
   \<and> parseFilenameMetadata ''smith - 2024 - Title.pdf'' = \<lparr>author = None, year = None\<rparr>
   \<and> parseFilenameMetadata ''Smith2024Title.pdf'' = \<lparr>author = None, year = None\<rparr>
   \<and> (authorName name \<and> fourDigits yr \<longrightarrow>
          parseFilenameMetadata (name @ '' et al - '' @ yr @ rest)
            = \<lparr>author = Some name, year = parseInt yr\<rparr>)
   \<and> (authorName name \<and> fourDigits yr
          \<and> rx_exec True pattern1 (name @ '' ('' @ yr @ '')'' @ rest) = None \<longrightarrow>
          parseFilenameMetadata (name @ '' ('' @ yr @ '')'' @ rest)
            = \<lparr>author = Some name, year = parseInt yr\<rparr>)
   \<and> (capitalized first \<and> fourDigits yr
          \<and> rx_exec True pattern1 (first @ '' - '' @ yr @ rest) = None
          \<and> rx_exec False pattern2 (first @ '' - '' @ yr @ rest) = None \<longrightarrow>
          parseFilenameMetadata (first @ '' - '' @ yr @ rest)
            = \<lparr>author = Some first, year = parseInt yr\<rparr>)
   \<and> (capitalized first \<and> capitalized second \<and> fourDigits yr
          \<and> rx_exec True pattern1 (first @ ''-'' @ second @ '' - '' @ yr @ rest) = None
          \<and> rx_exec False pattern2 (first @ ''-'' @ second @ '' - '' @ yr @ rest) = None \<longrightarrow>
          parseFilenameMetadata (first @ ''-'' @ second @ '' - '' @ yr @ rest)
            = \<lparr>author = Some (first @ ''-'' @ second), year = parseInt yr\<rparr>)
   \<and> (capitalized first \<and> fourDigits yr
          \<and> rx_exec True pattern1 (first @ '' '' @ yr @ '' '' @ rest) = None
          \<and> rx_exec False pattern2 (first @ '' '' @ yr @ '' '' @ rest) = None
          \<and> rx_exec False pattern3 (first @ '' '' @ yr @ '' '' @ rest) = None \<longrightarrow>
          parseFilenameMetadata (first @ '' '' @ yr @ '' '' @ rest)
            = \<lparr>author = Some first, year = parseInt yr\<rparr>)
   \<and> (capitalized first \<and> capitalized second \<and> fourDigits yr
          \<and> rx_exec True pattern1 (first @ '' '' @ second @ '' '' @ yr @ '' '' @ rest) = None
          \<and> rx_exec False pattern2 (first @ '' '' @ second @ '' '' @ yr @ '' '' @ rest) = None
          \<and> rx_exec False pattern3 (first @ '' '' @ second @ '' '' @ yr @ '' '' @ rest) = None \<longrightarrow>
          parseFilenameMetadata (first @ '' '' @ second @ '' '' @ yr @ '' '' @ rest)
            = \<lparr>author = Some (first @ '' '' @ second), year = parseInt yr\<rparr>)
   \<and> (\<forall>m. rx_exec True pattern1 title = Some m \<longrightarrow>
          parseFilenameMetadata title
            = \<lparr>author = Some (trim (group m 1)), year = parseInt (group m 2)\<rparr>)
   \<and> (\<forall>m. rx_exec True pattern1 title = None \<and> rx_exec False pattern2 title = Some m \<longrightarrow>
          parseFilenameMetadata title
            = \<lparr>author = Some (trim (rx_replace False coauthorSuffix [] (group m 1))),
               year = parseInt (group m 2)\<rparr>)
   \<and> (\<forall>m. rx_exec True pattern1 title = None \<and> rx_exec False pattern2 title = None
          \<and> rx_exec False pattern3 title = Some m \<longrightarrow>
          parseFilenameMetadata title
            = \<lparr>author = Some (trim (group m 1)), year = parseInt (group m 2)\<rparr>)
   \<and> (\<forall>m. rx_exec True pattern1 title = None \<and> rx_exec False pattern2 title = None
          \<and> rx_exec False pattern3 title = None \<and> rx_exec False pattern4 title = Some m \<longrightarrow>
          parseFilenameMetadata title
            = \<lparr>author = Some (trim (group m 1)), year = parseInt (group m 2)\<rparr>)
   \<and> (rx_exec True pattern1 title = None \<and> rx_exec False pattern2 title = None
          \<and> rx_exec False pattern3 title = None \<and> rx_exec False pattern4 title = None \<longrightarrow>
          parseFilenameMetadata title = \<lparr>author = None, year = None\<rparr>)"
proof -
  have ex1: "parseFilenameMetadata ''Jones & Brown (2023) - Climate Models.pdf''
     = \<lparr>author = Some ''Jones'', year = Some 2023\<rparr>"
    by code_simp
  have ex2: "parseFilenameMetadata ''Smith et al - 2024 - Title.pdf''
     = \<lparr>author = Some ''Smith'', year = Some 2024\<rparr>"
    by code_simp
  have third: "parseFilenameMetadata ''Smith - 2024 - Title.pdf''
     = \<lparr>author = Some ''Smith'', year = Some 2024\<rparr>"
    "parseFilenameMetadata ''Smith-Jones - 2024 - Title.pdf''
     = \<lparr>author = Some ''Smith-Jones'', year = Some 2024\<rparr>"
    by code_simp+
  have fourth: "parseFilenameMetadata ''Smith 2024 Title.pdf''
     = \<lparr>author = Some ''Smith'', year = Some 2024\<rparr>"
    "parseFilenameMetadata ''Van Gogh 1889 Letters.pdf''
     = \<lparr>author = Some ''Van Gogh'', year = Some 1889\<rparr>"
    by code_simp+
  have order: "parseFilenameMetadata ''Smith et al - 2024 (2023)''
     = \<lparr>author = Some ''Smith'', year = Some 2024\<rparr>"
    "parseFilenameMetadata ''Smith 2023 et al - 2024 notes''
     = \<lparr>author = Some ''Smith 2023'', year = Some 2024\<rparr>"
    "parseFilenameMetadata ''Smith - 2024 (2023)''
     = \<lparr>author = Some ''Smith - 2024'', year = Some 2023\<rparr>"
    "parseFilenameMetadata ''Smith 2024 (2023)''
     = \<lparr>author = Some ''Smith 2024'', year = Some 2023\<rparr>"
    by code_simp+
  have unparsed: "parseFilenameMetadata ''smith - 2024 - Title.pdf'' = \<lparr>author = None, year = None\<rparr>"
    "parseFilenameMetadata ''Smith2024Title.pdf'' = \<lparr>author = None, year = None\<rparr>"
    by code_simp+
  have cascade:
    "\<forall>m. rx_exec True pattern1 title = Some m \<longrightarrow>
          parseFilenameMetadata title
            = \<lparr>author = Some (trim (group m 1)), year = parseInt (group m 2)\<rparr>"
    "\<forall>m. rx_exec True pattern1 title = None \<and> rx_exec False pattern2 title = Some m \<longrightarrow>
          parseFilenameMetadata title
            = \<lparr>author = Some (trim (rx_replace False coauthorSuffix [] (group m 1))),
               year = parseInt (group m 2)\<rparr>"
    "\<forall>m. rx_exec True pattern1 title = None \<and> rx_exec False pattern2 title = None
          \<and> rx_exec False pattern3 title = Some m \<longrightarrow>
          parseFilenameMetadata title
            = \<lparr>author = Some (trim (group m 1)), year = parseInt (group m 2)\<rparr>"
    "\<forall>m. rx_exec True pattern1 title = None \<and> rx_exec False pattern2 title = None
          \<and> rx_exec False pattern3 title = None \<and> rx_exec False pattern4 title = Some m \<longrightarrow>
          parseFilenameMetadata title
            = \<lparr>author = Some (trim (group m 1)), year = parseInt (group m 2)\<rparr>"
    "rx_exec True pattern1 title = None \<and> rx_exec False pattern2 title = None
          \<and> rx_exec False pattern3 title = None \<and> rx_exec False pattern4 title = None \<longrightarrow>
          parseFilenameMetadata title = \<lparr>author = None, year = None\<rparr>"
    by (simp_all add: parseFilenameMetadata_def)
  have shapes:
    "authorName name \<and> fourDigits yr \<longrightarrow>
          parseFilenameMetadata (name @ '' et al - '' @ yr @ rest)
            = \<lparr>author = Some name, year = parseInt yr\<rparr>"
    "authorName name \<and> fourDigits yr
          \<and> rx_exec True pattern1 (name @ '' ('' @ yr @ '')'' @ rest) = None \<longrightarrow>
          parseFilenameMetadata (name @ '' ('' @ yr @ '')'' @ rest)
            = \<lparr>author = Some name, year = parseInt yr\<rparr>"
    "capitalized first \<and> fourDigits yr
          \<and> rx_exec True pattern1 (first @ '' - '' @ yr @ rest) = None
          \<and> rx_exec False pattern2 (first @ '' - '' @ yr @ rest) = None \<longrightarrow>
          parseFilenameMetadata (first @ '' - '' @ yr @ rest)
            = \<lparr>author = Some first, year = parseInt yr\<rparr>"
    "capitalized first \<and> capitalized second \<and> fourDigits yr
          \<and> rx_exec True pattern1 (first @ ''-'' @ second @ '' - '' @ yr @ rest) = None
          \<and> rx_exec False pattern2 (first @ ''-'' @ second @ '' - '' @ yr @ rest) = None \<longrightarrow>
          parseFilenameMetadata (first @ ''-'' @ second @ '' - '' @ yr @ rest)
            = \<lparr>author = Some (first @ ''-'' @ second), year = parseInt yr\<rparr>"
    "capitalized first \<and> fourDigits yr
          \<and> rx_exec True pattern1 (first @ '' '' @ yr @ '' '' @ rest) = None
          \<and> rx_exec False pattern2 (first @ '' '' @ yr @ '' '' @ rest) = None
          \<and> rx_exec False pattern3 (first @ '' '' @ yr @ '' '' @ rest) = None \<longrightarrow>
          parseFilenameMetadata (first @ '' '' @ yr @ '' '' @ rest)
            = \<lparr>author = Some first, year = parseInt yr\<rparr>"
    "capitalized first \<and> capitalized second \<and> fourDigits yr
          \<and> rx_exec True pattern1 (first @ '' '' @ second @ '' '' @ yr @ '' '' @ rest) = None
          \<and> rx_exec False pattern2 (first @ '' '' @ second @ '' '' @ yr @ '' '' @ rest) = None
          \<and> rx_exec False pattern3 (first @ '' '' @ second @ '' '' @ yr @ '' '' @ rest) = None \<longrightarrow>
          parseFilenameMetadata (first @ '' '' @ second @ '' '' @ yr @ '' '' @ rest)
            = \<lparr>author = Some (first @ '' '' @ second), year = parseInt yr\<rparr>"
    using parse_shape1 parse_shape2 parse_shape3 parse_shape3_hyphenated parse_shape4
      parse_shape4_two_words
    by blast+
  show ?thesis
    by (intro conjI ex1 ex2 third fourth order unparsed shapes cascade)
qed

text \<open>
  The order of the tests, read on titles that two patterns match, and the third and the
  fourth pattern on titles that they alone match. ``Smith et al - 2024 (2023)'' is matched
  by the patterns 1 and 2 and parsed by pattern 1; ``Smith 2023 et al - 2024 notes'' by 1
  and 4, parsed by 1; ``Smith - 2024 (2023)'' by 2 and 3, parsed by 2; ``Smith 2024
  (2023)'' by 2 and 4, parsed by 2. The last lines are one title of each shape, parsed as
  its shape says.
\<close>

theorem parseFilenameMetadata_first_match_wins_example:
  "rx_exec True pattern1 ''Smith et al - 2024 (2023)'' \<noteq> None
   \<and> rx_exec False pattern2 ''Smith et al - 2024 (2023)'' \<noteq> None
   \<and> parseFilenameMetadata ''Smith et al - 2024 (2023)'' = \<lparr>author = Some ''Smith'', year = Some 2024\<rparr>
   \<and> rx_exec True pattern1 ''Smith 2023 et al - 2024 notes'' \<noteq> None
   \<and> map_option (\<lambda>m. (group m 1, group m 2)) (rx_exec False pattern4 ''Smith 2023 et al - 2024 notes'')
        = Some (''Smith'', ''2023'')
   \<and> rx_exec True pattern1 ''Smith - 2024 (2023)'' = None
   \<and> rx_exec False pattern2 ''Smith - 2024 (2023)'' \<noteq> None
   \<and> map_option (\<lambda>m. (group m 1, group m 2)) (rx_exec False pattern3 ''Smith - 2024 (2023)'')
        = Some (''Smith'', ''2024'')
   \<and> parseFilenameMetadata ''Smith - 2024 (2023)'' = \<lparr>author = Some ''Smith - 2024'', year = Some 2023\<rparr>
   \<and> rx_exec False pattern2 ''Smith 2024 (2023)'' \<noteq> None
   \<and> map_option (\<lambda>m. (group m 1, group m 2)) (rx_exec False pattern4 ''Smith 2024 (2023)'')
        = Some (''Smith'', ''2024'')
   \<and> rx_exec True pattern1 ''Smith-Jones - 2024 - Title.pdf'' = None
   \<and> rx_exec False pattern2 ''Smith-Jones - 2024 - Title.pdf'' = None
   \<and> map_option (\<lambda>m. (group m 1, group m 2)) (rx_exec False pattern3 ''Smith-Jones - 2024 - Title.pdf'')
        = Some (''Smith-Jones'', ''2024'')
   \<and> rx_exec False pattern4 ''Smith-Jones - 2024 - Title.pdf'' = None
   \<and> parseFilenameMetadata ''Smith-Jones - 2024 - Title.pdf''
        = \<lparr>author = Some ''Smith-Jones'', year = Some 2024\<rparr>
   \<and> rx_exec True pattern1 ''Van Gogh 1889 Letters.pdf'' = None
   \<and> rx_exec False pattern2 ''Van Gogh 1889 Letters.pdf'' = None
   \<and> rx_exec False pattern3 ''Van Gogh 1889 Letters.pdf'' = None
   \<and> map_option (\<lambda>m. (group m 1, group m 2)) (rx_exec False pattern4 ''Van Gogh 1889 Letters.pdf'')
        = Some (''Van Gogh'', ''1889'')
   \<and> parseFilenameMetadata ''Van Gogh 1889 Letters.pdf''
        = \<lparr>author = Some ''Van Gogh'', year = Some 1889\<rparr>
   \<and> authorName ''Smith'' \<and> authorName ''Jones'' \<and> capitalized ''Smith'' \<and> capitalized ''Jones''
   \<and> capitalized ''Van'' \<and> capitalized ''Gogh'' \<and> fourDigits ''2024'' \<and> fourDigits ''1889''
   \<and> parseFilenameMetadata ''Smith et al - 2024 - Title.pdf''
        = \<lparr>author = Some ''Smith'', year = Some 2024\<rparr>
   \<and> parseFilenameMetadata ''Jones (2024) - Climate Models.pdf''
        = \<lparr>author = Some ''Jones'', year = Some 2024\<rparr>
   \<and> parseFilenameMetadata ''Smith - 2024 - Title.pdf''
        = \<lparr>author = Some ''Smith'', year = Some 2024\<rparr>
   \<and> parseFilenameMetadata ''Smith 2024 Title.pdf''
        = \<lparr>author = Some ''Smith'', year = Some 2024\<rparr>"
proof -
  let ?t = "''Smith et al - 2024 (2023)''" and ?u = "''Smith - 2024 (2023)''"
  let ?v = "''Smith-Jones - 2024 - Title.pdf''" and ?w = "''Van Gogh 1889 Letters.pdf''"
  have m1: "map_option (\<lambda>m. (trim (group m 1), parseInt (group m 2))) (rx_exec True pattern1 ?t)
              = Some (''Smith'', Some 2024)"
    by code_simp
  have m2: "rx_exec False pattern2 ?t \<noteq> None"
    by code_simp
  have u1: "rx_exec True pattern1 ?u = None"
    by code_simp
  have u2: "map_option (\<lambda>m. (trim (rx_replace False coauthorSuffix [] (group m 1)), parseInt (group m 2)))
              (rx_exec False pattern2 ?u) = Some (''Smith - 2024'', Some 2023)"
    by code_simp
  have u3: "map_option (\<lambda>m. (group m 1, group m 2)) (rx_exec False pattern3 ?u) = Some (''Smith'', ''2024'')"
    by code_simp
  have v12: "rx_exec True pattern1 ?v = None" "rx_exec False pattern2 ?v = None"
    by code_simp+
  have v3: "map_option (\<lambda>m. (group m 1, group m 2)) (rx_exec False pattern3 ?v)
              = Some (''Smith-Jones'', ''2024'')"
    by code_simp
  have v4: "rx_exec False pattern4 ?v = None"
    by code_simp
  have w123: "rx_exec True pattern1 ?w = None" "rx_exec False pattern2 ?w = None"
      "rx_exec False pattern3 ?w = None"
    by code_simp+
  have w4: "map_option (\<lambda>m. (group m 1, group m 2)) (rx_exec False pattern4 ?w)
              = Some (''Van Gogh'', ''1889'')"
    by code_simp
  have others: "rx_exec True pattern1 ''Smith 2023 et al - 2024 notes'' \<noteq> None"
    "map_option (\<lambda>m. (group m 1, group m 2)) (rx_exec False pattern4 ''Smith 2023 et al - 2024 notes'')
        = Some (''Smith'', ''2023'')"
    "rx_exec False pattern2 ''Smith 2024 (2023)'' \<noteq> None"
    "map_option (\<lambda>m. (group m 1, group m 2)) (rx_exec False pattern4 ''Smith 2024 (2023)'')
        = Some (''Smith'', ''2024'')"
    by code_simp+
  have digits: "parseInt ''2024'' = Some 2024" "parseInt ''1889'' = Some 1889"
    "trim ''Smith-Jones'' = ''Smith-Jones''" "trim ''Van Gogh'' = ''Van Gogh''"
    by code_simp+
  from m1 obtain m where m: "rx_exec True pattern1 ?t = Some m"
      "trim (group m 1) = ''Smith''" "parseInt (group m 2) = Some 2024"
    by auto
  from u2 obtain n where n: "rx_exec False pattern2 ?u = Some n"
      "trim (rx_replace False coauthorSuffix [] (group n 1)) = ''Smith - 2024''"
      "parseInt (group n 2) = Some 2023"
    by auto
  from v3 obtain a where a: "rx_exec False pattern3 ?v = Some a"
      "group a 1 = ''Smith-Jones''" "group a 2 = ''2024''"
    by auto
  from w4 obtain b where b: "rx_exec False pattern4 ?w = Some b"
      "group b 1 = ''Van Gogh''" "group b 2 = ''1889''"
    by auto
  have "parseFilenameMetadata ?t = \<lparr>author = Some ''Smith'', year = Some 2024\<rparr>"
    using parseFilenameMetadata_first_match_wins [of ?t] m by simp
  moreover have "parseFilenameMetadata ?u = \<lparr>author = Some ''Smith - 2024'', year = Some 2023\<rparr>"
    using parseFilenameMetadata_first_match_wins [of ?u] u1 n by simp
  moreover have "parseFilenameMetadata ?v = \<lparr>author = Some ''Smith-Jones'', year = Some 2024\<rparr>"
    using parseFilenameMetadata_first_match_wins [of ?v] v12 a digits by simp
  moreover have "parseFilenameMetadata ?w = \<lparr>author = Some ''Van Gogh'', year = Some 1889\<rparr>"
    using parseFilenameMetadata_first_match_wins [of ?w] w123 b digits by simp
  moreover have shape: "authorName ''Smith''" "authorName ''Jones''" "capitalized ''Smith''"
      "capitalized ''Jones''" "capitalized ''Van''" "capitalized ''Gogh''" "fourDigits ''2024''"
      "fourDigits ''1889''"
    by code_simp+
  moreover have "parseFilenameMetadata ''Smith et al - 2024 - Title.pdf''
        = \<lparr>author = Some ''Smith'', year = Some 2024\<rparr>"
    using parseFilenameMetadata_first_match_wins
            [where name = "''Smith''" and yr = "''2024''" and rest = "'' - Title.pdf''"]
          shape digits
    by simp
  moreover have "parseFilenameMetadata ''Jones (2024) - Climate Models.pdf''
        = \<lparr>author = Some ''Jones'', year = Some 2024\<rparr>"
  proof -
    have "rx_exec True pattern1 ''Jones (2024) - Climate Models.pdf'' = None"
      by code_simp
    then show ?thesis
      using parseFilenameMetadata_first_match_wins
              [where name = "''Jones''" and yr = "''2024''" and rest = "'' - Climate Models.pdf''"]
            shape digits
      by simp
  qed
  moreover have "parseFilenameMetadata ''Smith - 2024 - Title.pdf''
        = \<lparr>author = Some ''Smith'', year = Some 2024\<rparr>"
  proof -
    have "rx_exec True pattern1 ''Smith - 2024 - Title.pdf'' = None"
      "rx_exec False pattern2 ''Smith - 2024 - Title.pdf'' = None"
      by code_simp+
    then show ?thesis
      using parseFilenameMetadata_first_match_wins
              [where first = "''Smith''" and yr = "''2024''" and rest = "'' - Title.pdf''"]
            shape digits
      by simp
  qed
  moreover have "parseFilenameMetadata ''Smith 2024 Title.pdf''
        = \<lparr>author = Some ''Smith'', year = Some 2024\<rparr>"
  proof -
    have "rx_exec True pattern1 ''Smith 2024 Title.pdf'' = None"
      "rx_exec False pattern2 ''Smith 2024 Title.pdf'' = None"
      "rx_exec False pattern3 ''Smith 2024 Title.pdf'' = None"
      by code_simp+
    then show ?thesis
      using parseFilenameMetadata_first_match_wins
              [where first = "''Smith''" and yr = "''2024''" and rest = "''Title.pdf''"]
            shape digits
      by simp
  qed
  ultimately show ?thesis
    using m(1) m2 u1 n(1) u3 v12 v3 v4 w123 w4 others by simp
qed

section \<open>One record\<close>

text \<open>Identifier resolution fixes the confidence and the provenance of its candidate.\<close>

lemma getMetadataFromDOI_fixed:
  assumes "getMetadataFromDOI env doi = Some m"
  shows "m ''confidence'' = Some (JNum 100)" and "m ''enrichmentSource'' = Some (JStr ''CrossRef (DOI)'')"
  using assms
  by (auto simp: getMetadataFromDOI_def crossRefWorkToMetadata_def
           split: response.splits option.splits if_splits)

lemma ge_JNum: "ge env (JNum c) n = (n \<le> c)"
  by (simp add: ge_def)

lemma lt_JNum: "lt env (JNum c) n = (c < n)"
  by (simp add: lt_def)

text \<open>
  Claim C10. \<^verbatim>\<open>enrichSource\<close> returns the result of the hybrid extraction only when
  its confidence is at least 90. A hybrid result with a confidence below 90, a hybrid
  extraction that returns \<^verbatim>\<open>null\<close> or throws, and a hybrid extractor that is not
  loaded all leave the record to the original logic, which dispatches on the detected type.
\<close>

theorem enrichSource_hybrid_gate:
  "(hybridLoaded env \<and> extractMetadataHybrid env source = Inr (Some h)
      \<and> ge env (field h ''confidence'') 90
      \<longrightarrow> enrichSource env source = Inr h)
   \<and> (extractMetadataHybrid env source = Inr (Some h) \<and> \<not> ge env (field h ''confidence'') 90
      \<longrightarrow> enrichSource env source = originalEnrichment env source)
   \<and> (ge env (JNum c) 90 \<longleftrightarrow> 90 \<le> c)
   \<and> (extractMetadataHybrid env source = Inr None
      \<longrightarrow> enrichSource env source = originalEnrichment env source)
   \<and> (extractMetadataHybrid env source = Inl e
      \<longrightarrow> enrichSource env source = originalEnrichment env source)
   \<and> (\<not> hybridLoaded env \<longrightarrow> enrichSource env source = originalEnrichment env source)
   \<and> (hybridExtraction env source = Some h
      \<longrightarrow> extractMetadataHybrid env source = Inr (Some h) \<and> ge env (field h ''confidence'') 90)
   \<and> (detectSourceType source = Inr ''academic''
      \<longrightarrow> originalEnrichment env source = enrichAcademic env source)
   \<and> (detectSourceType source = Inr ''arxiv''
      \<longrightarrow> originalEnrichment env source = Inr (enrichArxiv env source))
   \<and> (detectSourceType source = Inr ''web''
      \<longrightarrow> originalEnrichment env source = Inr (enrichWeb env source))
   \<and> (detectSourceType source = Inr ''youtube''
      \<longrightarrow> originalEnrichment env source = enrichYoutube env source)
   \<and> (detectSourceType source = Inr ''unknown''
      \<longrightarrow> originalEnrichment env source
            = Inr (source(''confidence'' \<mapsto> JNum 0, ''enrichmentType'' \<mapsto> JStr ''none'')))"
proof -
  have accept: "hybridLoaded env \<and> extractMetadataHybrid env source = Inr (Some h)
      \<and> ge env (field h ''confidence'') 90 \<longrightarrow> enrichSource env source = Inr h"
    by (simp add: enrichSource_def hybridExtraction_def)
  have low: "extractMetadataHybrid env source = Inr (Some h) \<and> \<not> ge env (field h ''confidence'') 90
      \<longrightarrow> enrichSource env source = originalEnrichment env source"
    by (simp add: enrichSource_def hybridExtraction_def)
  have number: "ge env (JNum c) 90 \<longleftrightarrow> 90 \<le> c"
    by (rule ge_JNum)
  have none: "extractMetadataHybrid env source = Inr None
      \<longrightarrow> enrichSource env source = originalEnrichment env source"
    by (simp add: enrichSource_def hybridExtraction_def)
  have thrown: "extractMetadataHybrid env source = Inl e
      \<longrightarrow> enrichSource env source = originalEnrichment env source"
    by (simp add: enrichSource_def hybridExtraction_def)
  have absent: "\<not> hybridLoaded env \<longrightarrow> enrichSource env source = originalEnrichment env source"
    by (simp add: enrichSource_def hybridExtraction_def)
  have only: "hybridExtraction env source = Some h
      \<longrightarrow> extractMetadataHybrid env source = Inr (Some h) \<and> ge env (field h ''confidence'') 90"
    by (auto simp: hybridExtraction_def split: if_splits sum.splits option.splits)
  have types:
    "detectSourceType source = Inr ''academic''
      \<longrightarrow> originalEnrichment env source = enrichAcademic env source"
    "detectSourceType source = Inr ''arxiv''
      \<longrightarrow> originalEnrichment env source = Inr (enrichArxiv env source)"
    "detectSourceType source = Inr ''web''
      \<longrightarrow> originalEnrichment env source = Inr (enrichWeb env source)"
    "detectSourceType source = Inr ''youtube''
      \<longrightarrow> originalEnrichment env source = enrichYoutube env source"
    "detectSourceType source = Inr ''unknown''
      \<longrightarrow> originalEnrichment env source
            = Inr (source(''confidence'' \<mapsto> JNum 0, ''enrichmentType'' \<mapsto> JStr ''none''))"
    by (simp_all add: originalEnrichment_def)
  from accept low number none thrown absent only types show ?thesis by blast
qed

text \<open>
  An instance: the arXiv client answers with a candidate of confidence 50, the hybrid result
  is dropped, and the record is enriched as an arXiv preprint by the original logic.
\<close>

theorem enrichSource_hybrid_gate_example:
  "(case extractMetadataHybrid preprintEnv preprintSource of
      Inr (Some h) \<Rightarrow> h ''confidence'' | _ \<Rightarrow> None) = Some (JNum 50)
   \<and> enrichSource preprintEnv preprintSource = originalEnrichment preprintEnv preprintSource
   \<and> (case enrichSource preprintEnv preprintSource of
        Inr r \<Rightarrow> [r ''confidence'', r ''enrichmentType'', r ''hadURL''] | Inl e \<Rightarrow> [])
       = [Some (JNum (8 / 10)), Some (JStr ''arxiv''), None]"
proof -
  have hyb: "(case extractMetadataHybrid preprintEnv preprintSource of
      Inr (Some h) \<Rightarrow> h ''confidence'' | _ \<Rightarrow> None) = Some (JNum 50)"
    by code_simp
  then obtain h where h: "extractMetadataHybrid preprintEnv preprintSource = Inr (Some h)"
      "h ''confidence'' = Some (JNum 50)"
    by (auto split: sum.splits option.splits)
  have conf: "field h ''confidence'' = JNum 50"
    using h(2) by (simp add: field_def)
  have fall: "enrichSource preprintEnv preprintSource = originalEnrichment preprintEnv preprintSource"
    using enrichSource_hybrid_gate [of preprintEnv preprintSource h 50] h(1) conf by simp
  have orig: "(case originalEnrichment preprintEnv preprintSource of
        Inr r \<Rightarrow> [r ''confidence'', r ''enrichmentType'', r ''hadURL''] | Inl e \<Rightarrow> [])
       = [Some (JNum (8 / 10)), Some (JStr ''arxiv''), None]"
    by code_simp
  from hyb fall orig show ?thesis by simp
qed

section \<open>The identifier found by title search\<close>

text \<open>
  \<^verbatim>\<open>findDOIByTitle\<close> on an answer whose first item has a number as its score: the
  identifier of the item from the score 30 on, \<^verbatim>\<open>null\<close> below.
\<close>

lemma findDOIByTitle_first_result:
  assumes "fetchCrossRefDOISearch env title = Response status (Some data)"
      and "resp_ok status"
      and "get (get data ''message'') ''items'' = JArr (firstResult # others)"
      and "get firstResult ''score'' = JNum score"
  shows "findDOIByTitle env (JStr title) = Inr (if 30 \<le> score then get firstResult ''DOI'' else JNull)"
proof -
  have "get data ''message'' \<noteq> JUndefined"
    using assms(3) by auto
  then have data: "\<not> nullish data"
    by (cases data) auto
  have first: "\<not> nullish firstResult"
    using assms(4) by (cases firstResult) auto
  have sc: "js_or (JNum score) (JNum 0) = JNum score"
    by (simp add: js_or_def)
  show ?thesis
    using assms(1,2) data first
    by (simp add: findDOIByTitle_def assms(3,4) js_or_def lt_JNum not_less)
qed

lemma titleSearchReached_steps:
  assumes "titleSearchReached env source"
  shows "extractMetadataHybrid env source
         = (case findDOIByTitle env (field source ''title'') of
              Inl e \<Rightarrow> Inl e
            | Inr doi \<Rightarrow>
                (case (if truthy doi then getMetadataFromDOI env doi else None) of
                   Some metadata \<Rightarrow>
                     Inr (Some ((source ++ metadata)
                                  (''hadDOI'' \<mapsto> JBool True, ''foundByTitle'' \<mapsto> JBool True)))
                 | None \<Rightarrow> Inr None))"
proof -
  from assms obtain own where own: "extractDOI source = Inr own"
      "(case own of None \<Rightarrow> None
        | Some d \<Rightarrow> if d \<noteq> [] then getMetadataFromDOI env (JStr d) else None) = None"
    by (auto simp: titleSearchReached_def Option.is_none_def split: sum.splits option.splits)
  from assms have url:
    "(if truthy (field source ''url'')
      then (case field source ''url'' of
              JStr url \<Rightarrow> Inr (getMetadataFromURL env url)
            | _ \<Rightarrow> Inl TypeError)
      else Inr None) = Inr None"
    by (auto simp: titleSearchReached_def Option.is_none_def split: jsval.splits)
  show ?thesis
    unfolding extractMetadataHybrid_def own(1) sum.case own(2) option.case url ..
qed

text \<open>
  Claim C8. In the strategy that searches the identifier by title, the identifier of the
  first result is accepted if and only if its score is at least 30. When the strategy is
  reached (the record holds no identifier or one that does not resolve, and it has no URL
  or one from which no candidate is obtained) and the accepted identifier resolves, the
  resolution is accepted without a further test: the hybrid chain and \<^verbatim>\<open>enrichSource\<close>
  return the record merged with the resolved candidate, whose confidence is the constant
  100 of identifier resolution and whose provenance is ``CrossRef (DOI)''. When the search
  returns no identifier, or one that does not resolve, the hybrid chain resolves nothing.
\<close>

theorem title_search_threshold_and_confidence:
  "(fetchCrossRefDOISearch env title = Response status (Some data) \<and> resp_ok status
      \<and> get (get data ''message'') ''items'' = JArr (firstResult # others)
      \<and> get firstResult ''score'' = JNum score
      \<longrightarrow> findDOIByTitle env (JStr title)
            = Inr (if 30 \<le> score then get firstResult ''DOI'' else JNull))
   \<and> (titleSearchReached env source
      \<and> findDOIByTitle env (field source ''title'') = Inr doi \<and> truthy doi
      \<and> getMetadataFromDOI env doi = Some metadata \<and> hybridLoaded env
      \<longrightarrow> extractMetadataHybrid env source
            = Inr (Some ((source ++ metadata)(''hadDOI'' \<mapsto> JBool True, ''foundByTitle'' \<mapsto> JBool True)))
          \<and> enrichSource env source
            = Inr ((source ++ metadata)(''hadDOI'' \<mapsto> JBool True, ''foundByTitle'' \<mapsto> JBool True))
          \<and> field ((source ++ metadata)(''hadDOI'' \<mapsto> JBool True, ''foundByTitle'' \<mapsto> JBool True))
               ''confidence'' = JNum 100
          \<and> field ((source ++ metadata)(''hadDOI'' \<mapsto> JBool True, ''foundByTitle'' \<mapsto> JBool True))
               ''enrichmentSource'' = JStr ''CrossRef (DOI)'')
   \<and> (titleSearchReached env source
      \<and> findDOIByTitle env (field source ''title'') = Inr doi \<and> \<not> truthy doi
      \<longrightarrow> extractMetadataHybrid env source = Inr None)
   \<and> (titleSearchReached env source
      \<and> findDOIByTitle env (field source ''title'') = Inr doi
      \<and> getMetadataFromDOI env doi = None
      \<longrightarrow> extractMetadataHybrid env source = Inr None)"
proof -
  let ?r = "(source ++ metadata)(''hadDOI'' \<mapsto> JBool True, ''foundByTitle'' \<mapsto> JBool True)"
  have threshold: "fetchCrossRefDOISearch env title = Response status (Some data) \<and> resp_ok status
      \<and> get (get data ''message'') ''items'' = JArr (firstResult # others)
      \<and> get firstResult ''score'' = JNum score
      \<longrightarrow> findDOIByTitle env (JStr title)
            = Inr (if 30 \<le> score then get firstResult ''DOI'' else JNull)"
    using findDOIByTitle_first_result by blast
  have resolved: "extractMetadataHybrid env source = Inr (Some ?r)
          \<and> enrichSource env source = Inr ?r
          \<and> field ?r ''confidence'' = JNum 100
          \<and> field ?r ''enrichmentSource'' = JStr ''CrossRef (DOI)''"
    if h: "titleSearchReached env source"
          "findDOIByTitle env (field source ''title'') = Inr doi" "truthy doi"
          "getMetadataFromDOI env doi = Some metadata" "hybridLoaded env"
  proof -
    have hyb: "extractMetadataHybrid env source = Inr (Some ?r)"
      using h(2-4) by (simp add: titleSearchReached_steps[OF h(1)])
    have conf: "field ?r ''confidence'' = JNum 100"
      using getMetadataFromDOI_fixed(1)[OF h(4)] by (simp add: field_def map_add_def)
    have prov: "field ?r ''enrichmentSource'' = JStr ''CrossRef (DOI)''"
      using getMetadataFromDOI_fixed(2)[OF h(4)] by (simp add: field_def map_add_def)
    have "hybridExtraction env source = Some ?r"
      using h(5) by (simp add: hybridExtraction_def hyb conf ge_JNum)
    then have "enrichSource env source = Inr ?r"
      by (simp add: enrichSource_def)
    with hyb conf prov show ?thesis by blast
  qed
  have refused: "titleSearchReached env source
      \<and> findDOIByTitle env (field source ''title'') = Inr doi \<and> \<not> truthy doi
      \<longrightarrow> extractMetadataHybrid env source = Inr None"
    by (auto simp: titleSearchReached_steps)
  have unresolved: "titleSearchReached env source
      \<and> findDOIByTitle env (field source ''title'') = Inr doi
      \<and> getMetadataFromDOI env doi = None
      \<longrightarrow> extractMetadataHybrid env source = Inr None"
    by (auto simp: titleSearchReached_steps)
  from threshold resolved refused unresolved show ?thesis by blast
qed

text \<open>
  The scenario of the specification: the record with the title ``Attention Is All You
  Need'' and an empty URL, a search that returns the identifier at the score 85 (and, for
  comparison, at the score 29). The same title in a record with the address of a page, and
  in a record whose address holds an identifier that does not resolve, reaches the search
  as well and resolves the same way.
\<close>

theorem title_search_end_to_end:
  "findDOIByTitle attentionEnv (JStr ''Attention Is All You Need'') = Inr (JStr ''10.48550/arXiv.1706.03762'')
   \<and> findDOIByTitle (attentionEnv\<lparr>fetchCrossRefDOISearch := (\<lambda>title. searchHit ''10.48550/arXiv.1706.03762'' 29)\<rparr>)
        (JStr ''Attention Is All You Need'') = Inr JNull
   \<and> (\<exists>r. enrichSource attentionEnv attentionSource = Inr r
          \<and> field r ''confidence'' = JNum 100
          \<and> field r ''enrichmentSource'' = JStr ''CrossRef (DOI)''
          \<and> field r ''hadDOI'' = JBool True
          \<and> field r ''foundByTitle'' = JBool True
          \<and> field r ''title'' = JStr ''Attention Is All You Need'')
   \<and> (\<exists>r. enrichSource attentionEnv attentionPageSource = Inr r
          \<and> field r ''confidence'' = JNum 100
          \<and> field r ''enrichmentSource'' = JStr ''CrossRef (DOI)''
          \<and> field r ''hadDOI'' = JBool True
          \<and> field r ''foundByTitle'' = JBool True
          \<and> field r ''title'' = JStr ''Attention Is All You Need'')
   \<and> (\<exists>r. enrichSource attentionEnv attentionLinkSource = Inr r
          \<and> field r ''confidence'' = JNum 100
          \<and> field r ''enrichmentSource'' = JStr ''CrossRef (DOI)''
          \<and> field r ''hadDOI'' = JBool True
          \<and> field r ''foundByTitle'' = JBool True
          \<and> field r ''title'' = JStr ''Attention Is All You Need'')
   \<and> extractDOI attentionLinkSource = Inr (Some ''10.1000/182'')"
proof -
  let ?title = "''Attention Is All You Need''"
  let ?doi = "''10.48550/arXiv.1706.03762''"
  let ?first = "\<lambda>score. JObj [(''DOI'', JStr ?doi), (''title'', JArr [JStr ?title]), (''score'', JNum score)]"
  let ?data = "\<lambda>score. JObj [(''message'', JObj [(''items'', JArr [?first score])])]"
  let ?low = "attentionEnv\<lparr>fetchCrossRefDOISearch := (\<lambda>title. searchHit ?doi 29)\<rparr>"
  have found: "findDOIByTitle attentionEnv (JStr ?title) = Inr (JStr ?doi)"
    using title_search_threshold_and_confidence
            [of attentionEnv ?title 200 "?data 85" "?first 85" "[]" 85]
    by (simp add: attentionEnv_def offline_def searchHit_def resp_ok_def)
  have rejected: "findDOIByTitle ?low (JStr ?title) = Inr JNull"
    using title_search_threshold_and_confidence
            [of ?low ?title 200 "?data 29" "?first 29" "[]" 29]
    by (simp add: searchHit_def resp_ok_def)
  have reached: "titleSearchReached attentionEnv attentionSource"
    "titleSearchReached attentionEnv attentionPageSource"
    "titleSearchReached attentionEnv attentionLinkSource"
    by code_simp+
  have own: "extractDOI attentionLinkSource = Inr (Some ''10.1000/182'')"
    by code_simp
  have resolves: "getMetadataFromDOI attentionEnv (JStr ?doi) \<noteq> None"
    by code_simp
  then obtain metadata where m: "getMetadataFromDOI attentionEnv (JStr ?doi) = Some metadata"
    by blast
  have title: "(case getMetadataFromDOI attentionEnv (JStr ?doi) of
                  Some c \<Rightarrow> c ''title'' | None \<Rightarrow> None) = Some (JStr ?title)"
    by code_simp
  have loaded: "hybridLoaded attentionEnv"
    by (simp add: attentionEnv_def offline_def)
  have main: "\<exists>r. enrichSource attentionEnv source = Inr r
          \<and> field r ''confidence'' = JNum 100
          \<and> field r ''enrichmentSource'' = JStr ''CrossRef (DOI)''
          \<and> field r ''hadDOI'' = JBool True
          \<and> field r ''foundByTitle'' = JBool True
          \<and> field r ''title'' = JStr ?title"
    if src: "titleSearchReached attentionEnv source" "field source ''title'' = JStr ?title"
    for source
  proof -
    let ?r = "(source ++ metadata)(''hadDOI'' \<mapsto> JBool True, ''foundByTitle'' \<mapsto> JBool True)"
    have "enrichSource attentionEnv source = Inr ?r
        \<and> field ?r ''confidence'' = JNum 100 \<and> field ?r ''enrichmentSource'' = JStr ''CrossRef (DOI)''"
      using title_search_threshold_and_confidence
              [of attentionEnv ?title 200 "?data 85" "?first 85" "[]" 85 source "JStr ?doi" metadata]
            src found m loaded
      by simp
    moreover have "field ?r ''hadDOI'' = JBool True" "field ?r ''foundByTitle'' = JBool True"
      by (simp_all add: field_def)
    moreover have "field ?r ''title'' = JStr ?title"
      using title m by (simp add: field_def map_add_def)
    ultimately show ?thesis by blast
  qed
  have titles: "field attentionSource ''title'' = JStr ?title"
    "field attentionPageSource ''title'' = JStr ?title"
    "field attentionLinkSource ''title'' = JStr ?title"
    by (simp_all add: attentionSource_def attentionPageSource_def attentionLinkSource_def field_def)
  show ?thesis
    by (intro conjI found rejected own main[OF reached(1) titles(1)] main[OF reached(2) titles(2)]
          main[OF reached(3) titles(3)])
qed

section \<open>The merge of a candidate into the record\<close>












section \<open>The batch runner\<close>

text \<open>
  The run of the loop when the callback returns on every call and every record has a title
  that is a string: every record is emitted once, in order, and counted once.
\<close>

lemma tally_failed: "results\<lparr>failed := failed results + 1\<rparr> = tally NoMatch results"
  by simp

lemma enrichSources_loop_run:
  assumes cb: "\<And>p. progressCallback p = None"
      and titles: "list_all hasTitle sources"
  shows "enrichSources_loop env progressCallback len i sources (enriched, results)
           = Inr (enriched @ map (emitted env) sources,
                  foldl (\<lambda>res s. tally (counted env s) res) results sources)"
  using titles
proof (induction sources arbitrary: i enriched results)
  case Nil
  then show ?case by simp
next
  case (Cons source sources)
  from Cons.prems obtain t where t: "field source ''title'' = JStr t"
    by (auto simp: hasTitle_def split: jsval.splits)
  from Cons.prems have rest: "list_all hasTitle sources" by simp
  show ?case
  proof (cases "enrichSource env source")
    case (Inl error)
    then show ?thesis
      using Cons.IH[OF rest]
      by (simp add: titleSnippet_def t cb emitted_def counted_def)
  next
    case (Inr enrichedSource)
    then show ?thesis
      using Cons.IH[OF rest]
      by (simp add: titleSnippet_def t cb emitted_def counted_def Let_def)
  qed
qed

lemma enrichSources_run:
  assumes "\<And>p. progressCallback p = None"
      and "list_all hasTitle sources"
  shows "enrichSources env sources progressCallback
           = Inr (map (emitted env) sources,
                  foldl (\<lambda>res s. tally (counted env s) res)
                    \<lparr>success = 0, partial = 0, failed = 0\<rparr> sources)"
  by (simp add: enrichSources_def enrichSources_loop_run[OF assms] assms(1))

lemma foldl_tally:
  "foldl (\<lambda>res s. tally (f s) res) results xs
     = \<lparr>success = success results + length (filter (\<lambda>s. f s = Full) xs),
        partial = partial results + length (filter (\<lambda>s. f s = Partial) xs),
        failed = failed results + length (filter (\<lambda>s. f s = NoMatch) xs)\<rparr>"
proof (induction xs arbitrary: results)
  case Nil
  then show ?case by simp
next
  case (Cons x xs)
  show ?case
    by (cases "f x") (simp_all add: Cons.IH)
qed



text \<open>
  On every run that returns, whatever the callback does: the records emitted are, position
  by position, the enriched record of the input record or an error record of it.
\<close>

lemma enrichSources_loop_positions:
  "enrichSources_loop env progressCallback len i sources (enriched, results) = Inr (enriched', results')
   \<Longrightarrow> \<exists>new. enriched' = enriched @ new
          \<and> list_all2 (\<lambda>source r. r = emitted env source \<or> (\<exists>error. r = errorRecord source error))
                sources new"
proof (induction sources arbitrary: i enriched results)
  case Nil
  then show ?case by simp
next
  case (Cons source sources)
  from Cons.prems obtain x results'' where
      step: "enrichSources_loop env progressCallback len (i + 1) sources (enriched @ [x], results'')
               = Inr (enriched', results')"
      and x: "x = emitted env source \<or> (\<exists>error. x = errorRecord source error)"
    by (auto simp: emitted_def Let_def split: option.splits sum.splits prod.splits)
  from Cons.IH[OF step] obtain new where
      new: "enriched' = (enriched @ [x]) @ new"
        "list_all2 (\<lambda>source r. r = emitted env source \<or> (\<exists>error. r = errorRecord source error))
           sources new"
    by blast
  have "enriched' = enriched @ (x # new)"
    using new(1) by simp
  moreover have "list_all2 (\<lambda>source r. r = emitted env source \<or> (\<exists>error. r = errorRecord source error))
                   (source # sources) (x # new)"
    using x new(2) by simp
  ultimately show ?case by blast
qed

lemma enrichSources_positions:
  assumes "enrichSources env sources progressCallback = Inr (enriched, results)"
  shows "list_all2 (\<lambda>source r. r = emitted env source \<or> (\<exists>error. r = errorRecord source error))
           sources enriched"
proof -
  from assms have "enrichSources_loop env progressCallback (length sources) 0 sources
                     ([], \<lparr>success = 0, partial = 0, failed = 0\<rparr>) = Inr (enriched, results)"
    by (auto simp: enrichSources_def split: sum.splits option.splits prod.splits)
  from enrichSources_loop_positions[OF this] show ?thesis by simp
qed

section \<open>The batch runner: examples\<close>

lemma batch_titles: "list_all hasTitle batch"
  by (simp add: batch_def hasTitle_def field_def attentionSource_def videoSource_def
        pageSource_def noteSource_def)

lemma batch_quiet: "\<forall>p. quiet p = None"
  by (simp add: quiet_def)

text \<open>The four records of the batch, each enriched once.\<close>

lemma batch_attention:
  "(case enrichSource batchEnv attentionSource of
      Inr r \<Rightarrow> Some (r ''title'', r ''confidence'', r ''error'', classify batchEnv r)
    | Inl e \<Rightarrow> None)
   = Some (Some (JStr ''Attention Is All You Need''), Some (JNum 100), None, Full)"
  by code_simp

lemma batch_video:
  "(case enrichSource batchEnv videoSource of Inr r \<Rightarrow> None | Inl e \<Rightarrow> Some e)
   = Some (JsError ''storage unavailable'')"
  by code_simp

lemma batch_page:
  "(case enrichSource batchEnv pageSource of
      Inr r \<Rightarrow> Some (r ''title'', r ''confidence'', r ''error'', classify batchEnv r)
    | Inl e \<Rightarrow> None)
   = Some (Some (JStr ''Field notes from the lab''), Some (JNum (7 / 10)), None, Partial)"
  by code_simp

lemma batch_note:
  "(case enrichSource batchEnv noteSource of
      Inr r \<Rightarrow> Some (r ''title'', r ''confidence'', r ''error'', classify batchEnv r)
    | Inl e \<Rightarrow> None)
   = Some (Some (JStr ''Notes''), Some (JNum 0), None, NoMatch)"
  by code_simp

lemma batch_video_thrown: "enrichSource batchEnv videoSource = Inl (JsError ''storage unavailable'')"
  using batch_video by (auto split: sum.splits)

lemma batch_counted:
  "counted batchEnv attentionSource = Full" "counted batchEnv videoSource = NoMatch"
  "counted batchEnv pageSource = Partial" "counted batchEnv noteSource = NoMatch"
  using batch_attention batch_video batch_page batch_note
  by (auto simp: counted_def split: sum.splits)

lemma batch_throws:
  "\<not> throws batchEnv attentionSource" "throws batchEnv videoSource"
  "\<not> throws batchEnv pageSource" "\<not> throws batchEnv noteSource"
  using batch_attention batch_video batch_page batch_note
  by (auto simp: throws_def split: sum.splits)

lemma batch_emitted:
  "map (\<lambda>r. (r ''title'', r ''confidence'', r ''error'')) (map (emitted batchEnv) batch)
     = [(Some (JStr ''Attention Is All You Need''), Some (JNum 100), None),
        (Some (JStr ''A talk on YouTube''), Some (JNum 0), Some (JStr ''storage unavailable'')),
        (Some (JStr ''Field notes from the lab''), Some (JNum (7 / 10)), None),
        (Some (JStr ''Notes''), Some (JNum 0), None)]"
  using batch_attention batch_video batch_page batch_note
  by (auto simp: batch_def emitted_def errorRecord_def videoSource_def split: sum.splits)

section \<open>The batch runner: claims\<close>

text \<open>
  Claim C2. For every list of input records, whose titles are strings, and every callback
  that returns, the batch runner returns a list of the same length as the input, in the
  same order, with one record for each input record: the enriched record, or the error
  record when the enrichment of the input record throws. And on every run that returns at
  all, the list has the length of the input and its \<open>i\<close>-th record comes from the
  \<open>i\<close>-th input record.
\<close>

theorem enrichSources_same_length_and_order:
  "((\<forall>p. progressCallback p = None) \<and> list_all hasTitle sources
    \<longrightarrow> (\<exists>enriched results.
           enrichSources env sources progressCallback = Inr (enriched, results)
           \<and> length enriched = length sources
           \<and> enriched = map (emitted env) sources
           \<and> (\<forall>i < length sources.
                 enriched ! i = (case enrichSource env (sources ! i) of
                                   Inr enrichedSource \<Rightarrow> enrichedSource
                                 | Inl error \<Rightarrow> errorRecord (sources ! i) error))))
   \<and> (enrichSources env sources progressCallback = Inr (enriched', results')
    \<longrightarrow> length enriched' = length sources
        \<and> (\<forall>i < length sources.
              enriched' ! i = emitted env (sources ! i)
              \<or> (\<exists>error. enriched' ! i = errorRecord (sources ! i) error)))"
proof -
  have returning: "\<exists>enriched results.
          enrichSources env sources progressCallback = Inr (enriched, results)
          \<and> length enriched = length sources
          \<and> enriched = map (emitted env) sources
          \<and> (\<forall>i < length sources.
                enriched ! i = (case enrichSource env (sources ! i) of
                                  Inr enrichedSource \<Rightarrow> enrichedSource
                                | Inl error \<Rightarrow> errorRecord (sources ! i) error))"
    if cb: "\<forall>p. progressCallback p = None" and titles: "list_all hasTitle sources"
  proof -
    from cb have cb': "\<And>p. progressCallback p = None" by simp
    have "\<forall>i < length sources.
            map (emitted env) sources ! i
              = (case enrichSource env (sources ! i) of
                   Inr enrichedSource \<Rightarrow> enrichedSource
                 | Inl error \<Rightarrow> errorRecord (sources ! i) error)"
      by (auto simp: emitted_def split: sum.splits)
    then show ?thesis
      unfolding enrichSources_run[OF cb' titles] by simp
  qed
  have always: "length enriched' = length sources
        \<and> (\<forall>i < length sources.
              enriched' ! i = emitted env (sources ! i)
              \<or> (\<exists>error. enriched' ! i = errorRecord (sources ! i) error))"
    if run: "enrichSources env sources progressCallback = Inr (enriched', results')"
    using enrichSources_positions[OF run] by (auto simp: list_all2_conv_all_nth)
  from returning always show ?thesis by blast
qed

text \<open>An instance: the batch of four records, the second of which throws.\<close>

theorem enrichSources_same_length_and_order_example:
  "\<exists>enriched results.
      enrichSources batchEnv batch quiet = Inr (enriched, results)
      \<and> length enriched = 4
      \<and> map (\<lambda>r. (r ''title'', r ''confidence'', r ''error'')) enriched
          = [(Some (JStr ''Attention Is All You Need''), Some (JNum 100), None),
             (Some (JStr ''A talk on YouTube''), Some (JNum 0), Some (JStr ''storage unavailable'')),
             (Some (JStr ''Field notes from the lab''), Some (JNum (7 / 10)), None),
             (Some (JStr ''Notes''), Some (JNum 0), None)]"
proof -
  from enrichSources_same_length_and_order [of quiet batch batchEnv] batch_quiet batch_titles
  obtain enriched results where run:
      "enrichSources batchEnv batch quiet = Inr (enriched, results)"
      "length enriched = length batch" "enriched = map (emitted batchEnv) batch"
    by blast
  have len: "length enriched = 4"
    using run(2) by (simp add: batch_def)
  have fields: "map (\<lambda>r. (r ''title'', r ''confidence'', r ''error'')) enriched
          = [(Some (JStr ''Attention Is All You Need''), Some (JNum 100), None),
             (Some (JStr ''A talk on YouTube''), Some (JNum 0), Some (JStr ''storage unavailable'')),
             (Some (JStr ''Field notes from the lab''), Some (JNum (7 / 10)), None),
             (Some (JStr ''Notes''), Some (JNum 0), None)]"
    unfolding run(3) by (rule batch_emitted)
  show ?thesis
    by (rule exI[of _ enriched], rule exI[of _ results]) (simp only: run(1) len fields simp_thms)
qed



text \<open>
  Claim C7. When the enrichment of a record throws, the runner still emits the record, with
  confidence 0 and the message of the error, counts it as failed, and goes on: the run
  returns a list with one record for each input, the other records enriched as usual. With
  records whose titles are strings and a callback that returns, the run throws nothing.
\<close>

theorem enrichSources_catches_record_exceptions:
  "(\<forall>p. progressCallback p = None) \<and> list_all hasTitle sources
   \<longrightarrow> (\<exists>enriched results.
          enrichSources env sources progressCallback = Inr (enriched, results)
          \<and> length enriched = length sources
          \<and> (\<forall>i < length sources. \<forall>error. enrichSource env (sources ! i) = Inl error \<longrightarrow>
                enriched ! i = (sources ! i)(''confidence'' \<mapsto> JNum 0, ''error'' \<mapsto> JStr (message error)))
          \<and> (\<forall>i < length sources. \<forall>r. enrichSource env (sources ! i) = Inr r \<longrightarrow> enriched ! i = r)
          \<and> failed results
              = length (filter (throws env) sources)
                + length (filter (\<lambda>s. \<not> throws env s \<and> counted env s = NoMatch) sources))"
proof (intro impI, elim conjE)
  assume cb: "\<forall>p. progressCallback p = None" and titles: "list_all hasTitle sources"
  from cb have cb': "\<And>p. progressCallback p = None" by simp
  have thrown: "throws env s \<Longrightarrow> counted env s = NoMatch" for s
    by (auto simp: throws_def counted_def split: sum.splits)
  have "length (filter (\<lambda>s. counted env s = NoMatch) xs)
          = length (filter (throws env) xs)
            + length (filter (\<lambda>s. \<not> throws env s \<and> counted env s = NoMatch) xs)" for xs
    by (induction xs) (auto simp: thrown)
  then show "\<exists>enriched results.
          enrichSources env sources progressCallback = Inr (enriched, results)
          \<and> length enriched = length sources
          \<and> (\<forall>i < length sources. \<forall>error. enrichSource env (sources ! i) = Inl error \<longrightarrow>
                enriched ! i = (sources ! i)(''confidence'' \<mapsto> JNum 0, ''error'' \<mapsto> JStr (message error)))
          \<and> (\<forall>i < length sources. \<forall>r. enrichSource env (sources ! i) = Inr r \<longrightarrow> enriched ! i = r)
          \<and> failed results
              = length (filter (throws env) sources)
                + length (filter (\<lambda>s. \<not> throws env s \<and> counted env s = NoMatch) sources)"
    unfolding enrichSources_run[OF cb' titles] foldl_tally
    by (simp add: emitted_def errorRecord_def)
qed

text \<open>
  An instance: the enrichment of the second record of the batch throws, the record is
  emitted with the error, and the third record is enriched after it.
\<close>

theorem enrichSources_catches_record_exceptions_example:
  "enrichSource batchEnv videoSource = Inl (JsError ''storage unavailable'')
   \<and> (\<exists>enriched results.
        enrichSources batchEnv batch quiet = Inr (enriched, results)
        \<and> length enriched = 4
        \<and> enriched ! 1 = videoSource(''confidence'' \<mapsto> JNum 0, ''error'' \<mapsto> JStr ''storage unavailable'')
        \<and> (enriched ! 2) ''confidence'' = Some (JNum (7 / 10))
        \<and> failed results = 2)"
proof -
  from enrichSources_catches_record_exceptions [of quiet batch batchEnv] batch_quiet batch_titles
  obtain enriched results where run:
      "enrichSources batchEnv batch quiet = Inr (enriched, results)"
      "length enriched = length batch"
      "\<forall>i < length batch. \<forall>error. enrichSource batchEnv (batch ! i) = Inl error \<longrightarrow>
          enriched ! i = (batch ! i)(''confidence'' \<mapsto> JNum 0, ''error'' \<mapsto> JStr (message error))"
      "\<forall>i < length batch. \<forall>r. enrichSource batchEnv (batch ! i) = Inr r \<longrightarrow> enriched ! i = r"
      "failed results
              = length (filter (throws batchEnv) batch)
                + length (filter (\<lambda>s. \<not> throws batchEnv s \<and> counted batchEnv s = NoMatch) batch)"
    by blast
  have len: "length enriched = 4"
    using run(2) by (simp add: batch_def)
  have idx: "1 < length batch" "batch ! 1 = videoSource" "2 < length batch" "batch ! 2 = pageSource"
    by (simp_all add: batch_def)
  from run(3) idx(1,2) batch_video_thrown have video:
      "enriched ! 1 = videoSource(''confidence'' \<mapsto> JNum 0, ''error'' \<mapsto> JStr ''storage unavailable'')"
    by fastforce
  from batch_page obtain r where r: "enrichSource batchEnv pageSource = Inr r"
      "r ''confidence'' = Some (JNum (7 / 10))"
    by (auto split: sum.splits)
  from run(4) idx(3,4) r(1) have "enriched ! 2 = r"
    by fastforce
  with r(2) have page: "(enriched ! 2) ''confidence'' = Some (JNum (7 / 10))"
    by simp
  have failed: "failed results = 2"
    using run(5) by (simp add: batch_def batch_throws batch_counted)
  have "\<exists>enriched results.
        enrichSources batchEnv batch quiet = Inr (enriched, results)
        \<and> length enriched = 4
        \<and> enriched ! 1 = videoSource(''confidence'' \<mapsto> JNum 0, ''error'' \<mapsto> JStr ''storage unavailable'')
        \<and> (enriched ! 2) ''confidence'' = Some (JNum (7 / 10))
        \<and> failed results = 2"
    by (rule exI[of _ enriched], rule exI[of _ results]) (simp only: run(1) len video page failed simp_thms)
  with batch_video_thrown show ?thesis by blast
qed

end
